theory Spec2Isabelle
  imports Complex_Main "HOL-Library.AList"
begin

section \<open>Go values\<close>

text \<open>
  The evaluator works on dynamically typed Go values (\<^verbatim>\<open>any\<close>): the nested mappings of
  an \<^verbatim>\<open>unstructured.Unstructured\<close>, and the values CEL hands back. A Go map has unique keys
  and no order; it is an association list here, read with \<open>map_of\<close> and written with
  \<open>AList.update\<close>. \<open>GSlice\<close> and \<open>GMap\<close> are the \<^verbatim>\<open>[]any\<close> and the \<^verbatim>\<open>map[string]any\<close>
  that are not nil, \<open>GNilSlice\<close> and \<open>GNilMap\<close> the nil ones; \<open>GInt\<close> is an \<^verbatim>\<open>int64\<close>,
  \<open>GFloat\<close> a \<^verbatim>\<open>float64\<close>, \<open>GNumber\<close> a \<^verbatim>\<open>json.Number\<close>. A \<^verbatim>\<open>ref.Val\<close> (a CEL value) is
  \<open>GRef t v\<close>: its dynamic Go type and what its \<^verbatim>\<open>Value()\<close> method returns; a
  \<^verbatim>\<open>*mutation.JSONPatchVal\<close> keeps its four fields \<^verbatim>\<open>Op\<close>, \<^verbatim>\<open>Path\<close>, \<^verbatim>\<open>From\<close>, \<^verbatim>\<open>Val\<close>;
  \<open>GLister\<close> is a value implementing \<^verbatim>\<open>traits.Lister\<close>, by its elements; \<open>GAuthorizer\<close> is
  the value \<^verbatim>\<open>library.NewAuthorizerVal\<close> builds; \<open>GOther\<close> is a value of any other Go type,
  by the name of the type. The \<^verbatim>\<open>Object\<close> map of an \<^verbatim>\<open>unstructured.Unstructured\<close> that is
  not nil is a map that is not nil, and two objects are two maps.
\<close>

datatype Decision = DecisionDeny | DecisionAllow | DecisionNoOpinion

record UserInfo =
  Username :: string
  UID :: string
  Groups :: "string list"
  Extra :: "(string \<times> string list) list"

datatype celtype = ObjectValT | OtherValT

text \<open>A \<^verbatim>\<open>float64\<close>: not a number, an infinity by its sign (\<open>True\<close> for the negative one),
  or a number; the two zeros are one number. \<^verbatim>\<open>==\<close> holds of two numbers or infinities
  that are the same, and never of \<open>NaN\<close>.\<close>

datatype float64 = NaN | Infinity bool | Number real

definition float64Eq :: "float64 \<Rightarrow> float64 \<Rightarrow> bool" where
  "float64Eq x y = (x \<noteq> NaN \<and> x = y)"

datatype goval =
    GNil
  | GBool bool
  | GInt int
  | GFloat float64
  | GNumber string
  | GString string
  | GSlice "goval list"
  | GNilSlice
  | GMap "(string \<times> goval) list"
  | GNilMap
  | GStrings "string list"
  | GExtra "(string \<times> string list) list"
  | GRefSlice "goval list"
  | GRefMap "(goval \<times> goval) list"
  | GRef celtype goval
  | GPatch string string string "goval option"
  | GLister "goval list"
  | GAuthorizer "(string \<times> Decision) list" "UserInfo"
  | GOther string

type_synonym gomap = "(string \<times> goval) list"

type_synonym vars = "string \<Rightarrow> goval option"

section \<open>Errors\<close>

text \<open>
  An \<^verbatim>\<open>error\<close> is built the way the code builds it: \<^verbatim>\<open>errors.New\<close>, an error returned
  by a library (by its text), and the \<^verbatim>\<open>fmt.Errorf\<close> shapes the evaluator uses:
  \<^verbatim>\<open>"ctx: %w"\<close>, \<^verbatim>\<open>"ctx %q: %w"\<close>, \<^verbatim>\<open>"%w: %s"\<close>, \<^verbatim>\<open>"%w: %s returned %T"\<close> and \<^verbatim>\<open>"%w: %T"\<close>.
  \<open>GoPanic\<close> is a run-time panic (a nil dereference, an unsupported type in a deep copy):
  it is not an error value, it unwinds through every caller, so \<open>wrap\<close> and \<open>wrapQ\<close>
  leave it alone.
\<close>

datatype error =
    ErrNew string
  | ErrLib string
  | ErrWrap string error
  | ErrWrapQ string string error
  | ErrDetail error string
  | ErrReturned error string goval
  | ErrType error goval
  | GoPanic string

fun isPanic :: "error \<Rightarrow> bool" where
  "isPanic (GoPanic s) = True"
| "isPanic e = False"

definition wrap :: "string \<Rightarrow> error \<Rightarrow> error" where
  "wrap c err = (if isPanic err then err else ErrWrap c err)"

definition wrapQ :: "string \<Rightarrow> string \<Rightarrow> error \<Rightarrow> error" where
  "wrapQ c q err = (if isPanic err then err else ErrWrapQ c q err)"

definition errMutatingRequiresObject :: error where
  "errMutatingRequiresObject = ErrNew ''mutating policy requires object or oldObject''"

definition errUnsupportedPatchType :: error where
  "errUnsupportedPatchType = ErrNew ''unsupported patch type''"

definition errValidationNonBoolean :: error where
  "errValidationNonBoolean = ErrNew ''validation expression returned non-boolean''"

definition errMatchConditionNonBoolean :: error where
  "errMatchConditionNonBoolean = ErrNew ''match condition returned non-boolean''"

definition errApplyConfigNotObject :: error where
  "errApplyConfigNotObject = ErrNew ''apply configuration must return Object''"

definition errConvertCELUnexpectedType :: error where
  "errConvertCELUnexpectedType = ErrNew ''convertCELValue returned unexpected type''"

definition errUnexpectedPatchType :: error where
  "errUnexpectedPatchType = ErrNew ''unexpected patch type''"

definition errNoPolicy :: error where
  "errNoPolicy = ErrNew ''no policy provided''"

section \<open>The mock authorizer\<close>

record AuthorizationMockConfig =
  Group :: string
  Resource :: string
  Subresource :: string
  Namespace :: string
  Verb :: string
  Decision :: string

text \<open>\<^verbatim>\<open>authorizer.Attributes\<close>, as far as \<^verbatim>\<open>Authorize\<close> reads it.\<close>

record Attributes =
  APIGroup :: string
  AResource :: string
  ASubresource :: string
  ANamespace :: string
  AVerb :: string

text \<open>\<^verbatim>\<open>MockAuthorizer.decisions\<close>, a \<^verbatim>\<open>map[string]authorizer.Decision\<close>.\<close>

type_synonym MockAuthorizer = "(string \<times> Decision) list"

text \<open>\<^verbatim>\<open>fmt.Sprintf("%s/%s/%s/%s/%s", ...)\<close>\<close>

definition decisionKey :: "string \<Rightarrow> string \<Rightarrow> string \<Rightarrow> string \<Rightarrow> string \<Rightarrow> string" where
  "decisionKey g r s n v = g @ ''/'' @ r @ ''/'' @ s @ ''/'' @ n @ ''/'' @ v"

definition NewMockAuthorizer :: MockAuthorizer where
  "NewMockAuthorizer = []"

definition Add :: "MockAuthorizer \<Rightarrow> AuthorizationMockConfig \<Rightarrow> MockAuthorizer" where
  "Add m c =
     (let key = decisionKey (Group c) (Resource c) (Subresource c) (Namespace c) (Verb c) in
      if Decision c = ''allow'' then AList.update key DecisionAllow m
      else AList.update key DecisionDeny m)"

definition NewMockAuthorizerFromConfig :: "AuthorizationMockConfig list \<Rightarrow> MockAuthorizer" where
  "NewMockAuthorizerFromConfig configs = foldl Add NewMockAuthorizer configs"

definition Authorize :: "MockAuthorizer \<Rightarrow> Attributes \<Rightarrow> Decision \<times> string" where
  "Authorize m attrs =
     (let key = decisionKey (APIGroup attrs) (AResource attrs) (ASubresource attrs)
                  (ANamespace attrs) (AVerb attrs) in
      case map_of m key of
        Some decision \<Rightarrow> (decision, ''mock decision'')
      | None \<Rightarrow> (DecisionNoOpinion, ''no opinion''))"

text \<open>The tuple a configured record stands for, and the tuple of a check.\<close>

definition configTuple :: "AuthorizationMockConfig \<Rightarrow> string \<times> string \<times> string \<times> string \<times> string" where
  "configTuple c = (Group c, Resource c, Subresource c, Namespace c, Verb c)"

definition checkTuple :: "Attributes \<Rightarrow> string \<times> string \<times> string \<times> string \<times> string" where
  "checkTuple a = (APIGroup a, AResource a, ASubresource a, ANamespace a, AVerb a)"

section \<open>Policies, bindings, requests, results\<close>

record MatchCondition =
  mcName :: string
  mcExpression :: string

record Validation =
  vExpression :: string
  vMessage :: string
  vMessageExpression :: string

record AuditAnnotation =
  aaKey :: string
  aaValueExpression :: string

record ValidatingAdmissionPolicy =
  vapMatchConditions :: "MatchCondition list"
  vapValidations :: "Validation list"
  vapAuditAnnotations :: "AuditAnnotation list"

text \<open>
  \<^verbatim>\<open>Spec.MatchResources\<close> and its \<^verbatim>\<open>NamespaceSelector\<close> are pointers: \<open>None\<close> is nil.
  The label selector itself (\<open>'ls\<close>) is only handed to the apimachinery library.
\<close>

record 'ls MatchResources =
  NamespaceSelector :: "'ls option"

text \<open>\<^verbatim>\<open>type ValidationAction string\<close>, with its three constants.\<close>

definition Deny :: string where "Deny = ''Deny''"
definition Warn :: string where "Warn = ''Warn''"
definition Audit :: string where "Audit = ''Audit''"

record 'ls ValidatingAdmissionPolicyBinding =
  vbValidationActions :: "string list"
  vbMatchResources :: "'ls MatchResources option"

datatype PatchType = PatchTypeJSONPatch | PatchTypeApplyConfiguration | PatchTypeOther string

text \<open>\<^verbatim>\<open>Mutation.JSONPatch\<close> and \<^verbatim>\<open>Mutation.ApplyConfiguration\<close> are pointers to a struct
  holding one \<^verbatim>\<open>Expression\<close>.\<close>

record Mutation =
  mPatchType :: PatchType
  mJSONPatch :: "string option"
  mApplyConfiguration :: "string option"

record MutatingAdmissionPolicy =
  mapMatchConditions :: "MatchCondition list"
  mapMutations :: "Mutation list"

record 'ls MutatingAdmissionPolicyBinding =
  mbMatchResources :: "'ls MatchResources option"

record GroupVersionKind =
  gvkGroup :: string
  gvkVersion :: string
  gvkKind :: string

record GroupVersionResource =
  gvrGroup :: string
  gvrVersion :: string
  gvrResource :: string

text \<open>The fields of \<^verbatim>\<open>admissionv1.AdmissionRequest\<close> the evaluator reads; \<open>reqOptionsRaw\<close> is
  \<^verbatim>\<open>Options.Raw\<close> (\<open>None\<close> for nil bytes), \<open>reqDryRun\<close> a \<^verbatim>\<open>*bool\<close>.\<close>

record AdmissionRequest =
  reqUID :: string
  reqKind :: GroupVersionKind
  reqResource :: GroupVersionResource
  reqSubResource :: string
  reqName :: string
  reqNamespace :: string
  reqOperation :: string
  reqUserInfo :: UserInfo
  reqOptionsRaw :: "string option"
  reqDryRun :: "bool option"

text \<open>\<^verbatim>\<open>PatchedObject\<close> is a \<^verbatim>\<open>*unstructured.Unstructured\<close>, given by its \<^verbatim>\<open>Object\<close> map; the
  field \<^verbatim>\<open>PatchType\<close> is never set by the evaluator and is left out.\<close>

record EvaluationResult =
  Allowed :: bool
  Message :: string
  Warnings :: "string list"
  PatchedObject :: "gomap option"
  AuditAnnotations :: "(string \<times> string) list"

text \<open>\<^verbatim>\<open>&EvaluationResult{Allowed: true}\<close>\<close>

definition allowedResult :: EvaluationResult where
  "allowedResult = \<lparr>Allowed = True, Message = '''', Warnings = [], PatchedObject = None,
     AuditAnnotations = []\<rparr>"

text \<open>One operation of a \<^verbatim>\<open>jsonpatch.Patch\<close>: raw JSON under the keys op, path, from, value.\<close>

record Operation =
  opOp :: string
  opPath :: string
  opFrom :: "string option"
  opValue :: "string option"

section \<open>The libraries the evaluator calls\<close>

text \<open>
  The CEL environment the \<^verbatim>\<open>Evaluator\<close> holds, and the functions of cel-go, apimachinery,
  encoding/json, yaml, json-patch and the Go standard library that the evaluator calls,
  are parameters: each is a function from its arguments to its result, an error being the
  text of the library's error.
\<close>

record ('ast, 'prg, 'ls, 'sel) Evaluator =
  celCompile :: "string \<Rightarrow> string + 'ast"
  celProgram :: "'ast \<Rightarrow> string + 'prg"
  celEval :: "'prg \<Rightarrow> vars \<Rightarrow> string + goval"
  celConvertToNative :: "goval \<Rightarrow> string \<Rightarrow> string + goval"
  LabelSelectorAsSelector :: "'ls \<Rightarrow> string + 'sel"
  selectorEmpty :: "'sel \<Rightarrow> bool"
  selectorMatches :: "'sel \<Rightarrow> (string \<times> string) list \<Rightarrow> bool"
  GetLabels :: "gomap \<Rightarrow> (string \<times> string) list"
  jsonUnmarshal :: "string \<Rightarrow> string + gomap"
  yamlUnmarshal :: "string \<Rightarrow> string + gomap"
  jsonMarshal :: "goval \<Rightarrow> string + string"
  patchApply :: "Operation list \<Rightarrow> string \<Rightarrow> string + string"
  strconvQuote :: "string \<Rightarrow> string"
  TrimSpace :: "string \<Rightarrow> string"

text \<open>
  Modelled from the spec: the variable names of the package
  \<^verbatim>\<open>k8s.io/apiserver/pkg/admission/plugin/cel\<close>, which is not part of this repository; the
  spec names the six variables \<^verbatim>\<open>object\<close>, \<^verbatim>\<open>oldObject\<close>, \<^verbatim>\<open>request\<close>, \<^verbatim>\<open>params\<close>,
  \<^verbatim>\<open>namespaceObject\<close>, \<^verbatim>\<open>authorizer\<close>.
\<close>

definition ObjectVarName :: string where "ObjectVarName = ''object''"
definition OldObjectVarName :: string where "OldObjectVarName = ''oldObject''"
definition RequestVarName :: string where "RequestVarName = ''request''"
definition ParamsVarName :: string where "ParamsVarName = ''params''"
definition NamespaceVarName :: string where "NamespaceVarName = ''namespaceObject''"
definition AuthorizerVarName :: string where "AuthorizerVarName = ''authorizer''"

section \<open>Evaluating one expression\<close>

text \<open>
  Every function that evaluates expressions returns, next to its result, the expressions
  it handed to the CEL environment, in the order of the calls: \<open>evaluateExpressionRaw\<close>
  is the only function that touches the environment, and it records its argument.
  \<open>after t m\<close> is the computation \<open>m\<close> run after the calls \<open>t\<close>.
\<close>

type_synonym 'a traced = "(error + 'a) \<times> string list"

definition after :: "string list \<Rightarrow> 'a traced \<Rightarrow> 'a traced" where
  "after t m = (fst m, t @ snd m)"

definition evaluateExpressionRaw ::
  "('ast, 'prg, 'ls, 'sel) Evaluator \<Rightarrow> string \<Rightarrow> vars \<Rightarrow> goval traced" where
  "evaluateExpressionRaw e expression vs =
     (case celCompile e expression of
        Inl issues \<Rightarrow> Inl (ErrWrap ''compile expression'' (ErrLib issues))
      | Inr ast \<Rightarrow>
          (case celProgram e ast of
             Inl err \<Rightarrow> Inl (ErrWrap ''create program'' (ErrLib err))
           | Inr prg \<Rightarrow>
               (case celEval e prg vs of
                  Inl err \<Rightarrow> Inl (ErrWrap ''evaluate'' (ErrLib err))
                | Inr result \<Rightarrow> Inr result)),
      [expression])"

text \<open>
  \<^verbatim>\<open>Value()\<close> of a CEL value. A \<^verbatim>\<open>*JSONPatchVal\<close> returns itself; a lister is the
  repository's \<^verbatim>\<open>refValList\<close>, whose value is its \<^verbatim>\<open>[]ref.Val\<close>. Calling it on the nil
  interface panics, which \<open>evaluateExpression\<close> handles before it calls \<open>Value\<close>.
\<close>

fun Value :: "goval \<Rightarrow> goval" where
  "Value (GRef t v) = v"
| "Value (GLister xs) = GRefSlice xs"
| "Value v = v"

definition evaluateExpression ::
  "('ast, 'prg, 'ls, 'sel) Evaluator \<Rightarrow> string \<Rightarrow> vars \<Rightarrow> goval traced" where
  "evaluateExpression e expression vs =
     (case evaluateExpressionRaw e expression vs of
        (Inl err, t) \<Rightarrow> (Inl err, t)
      | (Inr celVal, t) \<Rightarrow>
          (if celVal = GNil then (Inl (GoPanic ''nil pointer dereference''), t)
           else (Inr (Value celVal), t)))"

fun evaluateMatchConditions ::
  "('ast, 'prg, 'ls, 'sel) Evaluator \<Rightarrow> MatchCondition list \<Rightarrow> vars \<Rightarrow> bool traced" where
  "evaluateMatchConditions e [] vs = (Inr True, [])"
| "evaluateMatchConditions e (condition # conditions) vs =
     (case evaluateExpression e (mcExpression condition) vs of
        (Inl err, t) \<Rightarrow> (Inl (wrapQ ''evaluate match condition'' (mcName condition) err), t)
      | (Inr result, t) \<Rightarrow>
          (case result of
             GBool matched \<Rightarrow>
               (if \<not> matched then (Inr False, t)
                else after t (evaluateMatchConditions e conditions vs))
           | _ \<Rightarrow> (Inl (ErrReturned errMatchConditionNonBoolean (mcName condition) result), t)))"

text \<open>\<^verbatim>\<open>evaluateMatchConditionsV1Beta1\<close> has the same body on the v1beta1 type, which has
  the same two fields.\<close>

definition evaluateMatchConditionsV1Beta1 ::
  "('ast, 'prg, 'ls, 'sel) Evaluator \<Rightarrow> MatchCondition list \<Rightarrow> vars \<Rightarrow> bool traced" where
  "evaluateMatchConditionsV1Beta1 = evaluateMatchConditions"

section \<open>Request projection\<close>

text \<open>\<^verbatim>\<open>if cond { m[k] = v }\<close>\<close>

definition setIf :: "bool \<Rightarrow> string \<Rightarrow> goval \<Rightarrow> gomap \<Rightarrow> gomap" where
  "setIf cond k v m = (if cond then AList.update k v m else m)"

definition convertAdmissionRequest ::
  "('ast, 'prg, 'ls, 'sel) Evaluator \<Rightarrow> AdmissionRequest option \<Rightarrow> error + gomap" where
  "convertAdmissionRequest e request =
     (case request of
        None \<Rightarrow> Inr []
      | Some req \<Rightarrow>
          (let result = [];
               result = setIf (reqUID req \<noteq> '''') ''uid'' (GString (reqUID req)) result;
               result = setIf (reqSubResource req \<noteq> '''') ''subResource''
                          (GString (reqSubResource req)) result;
               result = setIf (reqName req \<noteq> '''') ''name'' (GString (reqName req)) result;
               result = setIf (reqNamespace req \<noteq> '''') ''namespace''
                          (GString (reqNamespace req)) result;
               result = setIf (reqOperation req \<noteq> '''') ''operation''
                          (GString (reqOperation req)) result;
               result = setIf (gvkKind (reqKind req) \<noteq> '''') ''kind''
                          (GMap [(''group'', GString (gvkGroup (reqKind req))),
                                 (''version'', GString (gvkVersion (reqKind req))),
                                 (''kind'', GString (gvkKind (reqKind req)))]) result;
               result = setIf (gvrResource (reqResource req) \<noteq> '''') ''resource''
                          (GMap [(''group'', GString (gvrGroup (reqResource req))),
                                 (''version'', GString (gvrVersion (reqResource req))),
                                 (''resource'', GString (gvrResource (reqResource req)))]) result;
               result =
                 setIf (Username (reqUserInfo req) \<noteq> '''' \<or> Groups (reqUserInfo req) \<noteq> [])
                   ''userInfo''
                   (let userInfo = [];
                        userInfo = setIf (Username (reqUserInfo req) \<noteq> '''') ''username''
                                     (GString (Username (reqUserInfo req))) userInfo;
                        userInfo = setIf (Groups (reqUserInfo req) \<noteq> []) ''groups''
                                     (GStrings (Groups (reqUserInfo req))) userInfo;
                        userInfo = setIf (UID (reqUserInfo req) \<noteq> '''') ''uid''
                                     (GString (UID (reqUserInfo req))) userInfo;
                        userInfo = setIf (Extra (reqUserInfo req) \<noteq> []) ''extra''
                                     (GExtra (Extra (reqUserInfo req))) userInfo
                    in GMap userInfo)
                   result
           in case (case reqOptionsRaw req of
                      None \<Rightarrow> Inr result
                    | Some raw \<Rightarrow>
                        (case jsonUnmarshal e raw of
                           Inr optionsMap \<Rightarrow> Inr (AList.update ''options'' (GMap optionsMap) result)
                         | Inl jsonErr \<Rightarrow>
                             (case yamlUnmarshal e raw of
                                Inl err \<Rightarrow> Inl (ErrWrap ''unmarshal options'' (ErrLib err))
                              | Inr optionsMap \<Rightarrow>
                                  Inr (AList.update ''options'' (GMap optionsMap) result)))) of
                Inl err \<Rightarrow> Inl err
              | Inr result \<Rightarrow>
                  Inr (case reqDryRun req of
                         None \<Rightarrow> result
                       | Some dryRun \<Rightarrow> AList.update ''dryRun'' (GBool dryRun) result)))"

section \<open>Variable bindings\<close>

definition NewAuthorizerValue :: "MockAuthorizer option \<Rightarrow> UserInfo option \<Rightarrow> goval" where
  "NewAuthorizerValue auth userInfo =
     (case auth of
        None \<Rightarrow> GNil
      | Some a \<Rightarrow> (case userInfo of None \<Rightarrow> GNil | Some u \<Rightarrow> GAuthorizer a u))"

definition setupValidatingVars ::
  "gomap \<Rightarrow> gomap option \<Rightarrow> gomap option \<Rightarrow> gomap option \<Rightarrow> gomap option \<Rightarrow>
   MockAuthorizer option \<Rightarrow> UserInfo option \<Rightarrow> vars" where
  "setupValidatingVars requestMap object oldObject params namespaceObj authorizer userInfo =
     (let vs = [RequestVarName \<mapsto> GMap requestMap];
          vs = (case object of
                  Some obj \<Rightarrow> vs(ObjectVarName \<mapsto> GMap obj)
                | None \<Rightarrow>
                    (case oldObject of
                       Some old \<Rightarrow> vs(ObjectVarName \<mapsto> GMap old)
                     | None \<Rightarrow> vs(ObjectVarName \<mapsto> GNil)));
          vs = (case params of
                  Some p \<Rightarrow> vs(ParamsVarName \<mapsto> GMap p)
                | None \<Rightarrow> vs(ParamsVarName \<mapsto> GNil));
          vs = (if authorizer \<noteq> None \<and> userInfo \<noteq> None then
                  vs(AuthorizerVarName \<mapsto> NewAuthorizerValue authorizer userInfo)
                else vs);
          vs = (case oldObject of
                  Some old \<Rightarrow> vs(OldObjectVarName \<mapsto> GMap old)
                | None \<Rightarrow> vs);
          vs = (case namespaceObj of
                  Some ns \<Rightarrow> vs(NamespaceVarName \<mapsto> GMap ns)
                | None \<Rightarrow> vs)
      in vs)"

text \<open>\<open>primaryObject\<close> is not nil where the code calls \<^verbatim>\<open>prepareMutatingVars\<close>; it takes the
  map of the object.\<close>

definition prepareMutatingVars ::
  "gomap \<Rightarrow> gomap \<Rightarrow> gomap option \<Rightarrow> gomap option \<Rightarrow> gomap option \<Rightarrow>
   MockAuthorizer option \<Rightarrow> UserInfo option \<Rightarrow> vars" where
  "prepareMutatingVars requestMap primaryObject oldObject params namespaceObj authorizer userInfo =
     (let vs = [ObjectVarName \<mapsto> GMap primaryObject, RequestVarName \<mapsto> GMap requestMap];
          vs = (case params of
                  Some p \<Rightarrow> vs(ParamsVarName \<mapsto> GMap p)
                | None \<Rightarrow> vs(ParamsVarName \<mapsto> GNil));
          vs = (if authorizer \<noteq> None \<and> userInfo \<noteq> None then
                  vs(AuthorizerVarName \<mapsto> NewAuthorizerValue authorizer userInfo)
                else vs);
          vs = (case oldObject of
                  Some old \<Rightarrow> vs(OldObjectVarName \<mapsto> GMap old)
                | None \<Rightarrow> vs);
          vs = (case namespaceObj of
                  Some ns \<Rightarrow> vs(NamespaceVarName \<mapsto> GMap ns)
                | None \<Rightarrow> vs)
      in vs)"

definition getPrimaryObject :: "gomap option \<Rightarrow> gomap option \<Rightarrow> gomap option" where
  "getPrimaryObject object oldObject = (if object \<noteq> None then object else oldObject)"

section \<open>The namespace-selector gate\<close>

definition matchesNamespaceSelector ::
  "('ast, 'prg, 'ls, 'sel) Evaluator \<Rightarrow> 'ls ValidatingAdmissionPolicyBinding option \<Rightarrow>
   gomap option \<Rightarrow> error + bool" where
  "matchesNamespaceSelector e binding namespaceObj =
     (case binding of
        None \<Rightarrow> Inr True
      | Some b \<Rightarrow>
          (case vbMatchResources b of
             None \<Rightarrow> Inr True
           | Some mr \<Rightarrow>
               (case NamespaceSelector mr of
                  None \<Rightarrow> Inr True
                | Some ls \<Rightarrow>
                    (case LabelSelectorAsSelector e ls of
                       Inl err \<Rightarrow> Inl (ErrWrap ''parse namespace selector'' (ErrLib err))
                     | Inr selector \<Rightarrow>
                         (if selectorEmpty e selector then Inr True
                          else case namespaceObj of
                                 None \<Rightarrow> Inr True
                               | Some ns \<Rightarrow> Inr (selectorMatches e selector (GetLabels e ns)))))))"

definition matchesNamespaceSelectorV1Beta1 ::
  "('ast, 'prg, 'ls, 'sel) Evaluator \<Rightarrow> 'ls MutatingAdmissionPolicyBinding option \<Rightarrow>
   gomap option \<Rightarrow> error + bool" where
  "matchesNamespaceSelectorV1Beta1 e binding namespaceObj =
     (case binding of
        None \<Rightarrow> Inr True
      | Some b \<Rightarrow>
          (case mbMatchResources b of
             None \<Rightarrow> Inr True
           | Some mr \<Rightarrow>
               (case NamespaceSelector mr of
                  None \<Rightarrow> Inr True
                | Some ls \<Rightarrow>
                    (case LabelSelectorAsSelector e ls of
                       Inl err \<Rightarrow> Inl (ErrWrap ''parse namespace selector'' (ErrLib err))
                     | Inr selector \<Rightarrow>
                         (if selectorEmpty e selector then Inr True
                          else case namespaceObj of
                                 None \<Rightarrow> Inr True
                               | Some ns \<Rightarrow> Inr (selectorMatches e selector (GetLabels e ns)))))))"

section \<open>The validation engine\<close>

text \<open>The loop of \<^verbatim>\<open>evaluateAuditAnnotations\<close>, on the map built so far.\<close>

fun auditAnnotationsLoop ::
  "('ast, 'prg, 'ls, 'sel) Evaluator \<Rightarrow> AuditAnnotation list \<Rightarrow> vars \<Rightarrow>
   (string \<times> string) list \<Rightarrow> (string \<times> string) list traced" where
  "auditAnnotationsLoop e [] vs auditAnnotations = (Inr auditAnnotations, [])"
| "auditAnnotationsLoop e (annotation # annotations) vs auditAnnotations =
     (case evaluateExpression e (aaValueExpression annotation) vs of
        (Inl err, t) \<Rightarrow> (Inl (wrapQ ''evaluate audit annotation'' (aaKey annotation) err), t)
      | (Inr v, t) \<Rightarrow>
          after t (auditAnnotationsLoop e annotations vs
            (case v of
               GString strValue \<Rightarrow>
                 (if strValue \<noteq> '''' then AList.update (aaKey annotation) strValue auditAnnotations
                  else auditAnnotations)
             | _ \<Rightarrow> auditAnnotations)))"

definition evaluateAuditAnnotations ::
  "('ast, 'prg, 'ls, 'sel) Evaluator \<Rightarrow> AuditAnnotation list \<Rightarrow> vars \<Rightarrow>
   (string \<times> string) list traced" where
  "evaluateAuditAnnotations e annotations vs = auditAnnotationsLoop e annotations vs []"

definition getValidationAction :: "'ls ValidatingAdmissionPolicyBinding option \<Rightarrow> string" where
  "getValidationAction binding =
     (case binding of
        None \<Rightarrow> ''''
      | Some b \<Rightarrow> (case vbValidationActions b of [] \<Rightarrow> '''' | action # rest \<Rightarrow> action))"

definition handleValidationFailure ::
  "('ast, 'prg, 'ls, 'sel) Evaluator \<Rightarrow> Validation \<Rightarrow>
   'ls ValidatingAdmissionPolicyBinding option \<Rightarrow> (string \<times> string) list \<Rightarrow> vars \<Rightarrow>
   EvaluationResult traced" where
  "handleValidationFailure e validation binding auditAnnotations vs =
     (let message = vMessage validation in
      case (if vMessageExpression validation \<noteq> '''' then
              (case evaluateExpression e (vMessageExpression validation) vs of
                 (Inl err, t) \<Rightarrow>
                   (Inl (wrapQ ''evaluate messageExpression'' (vMessageExpression validation) err), t)
               | (Inr msgResult, t) \<Rightarrow>
                   (case msgResult of
                      GString msgStr \<Rightarrow>
                        (if TrimSpace e msgStr \<noteq> '''' then (Inr msgStr, t) else (Inr message, t))
                    | _ \<Rightarrow> (Inr message, t)))
            else (Inr message, [])) of
        (Inl err, t) \<Rightarrow> (Inl err, t)
      | (Inr message, t) \<Rightarrow>
          (let message = (if message = '''' then ''validation failed: '' @ vExpression validation
                          else message);
               action = getValidationAction binding
           in if action = Warn then
                (Inr \<lparr>Allowed = True, Message = '''', Warnings = [message], PatchedObject = None,
                      AuditAnnotations = auditAnnotations\<rparr>, t)
              else if action = Audit then
                (Inr \<lparr>Allowed = True, Message = '''', Warnings = [], PatchedObject = None,
                      AuditAnnotations = auditAnnotations\<rparr>, t)
              else
                (Inr \<lparr>Allowed = False, Message = message, Warnings = [], PatchedObject = None,
                      AuditAnnotations = auditAnnotations\<rparr>, t)))"

text \<open>The loop over \<^verbatim>\<open>policy.Spec.Validations\<close> in \<^verbatim>\<open>EvaluateValidating\<close>, with the
  return that follows it.\<close>

fun validationsLoop ::
  "('ast, 'prg, 'ls, 'sel) Evaluator \<Rightarrow> Validation list \<Rightarrow>
   'ls ValidatingAdmissionPolicyBinding option \<Rightarrow> (string \<times> string) list \<Rightarrow> vars \<Rightarrow>
   EvaluationResult traced" where
  "validationsLoop e [] binding auditAnnotations vs =
     (Inr \<lparr>Allowed = True, Message = '''', Warnings = [], PatchedObject = None,
           AuditAnnotations = auditAnnotations\<rparr>, [])"
| "validationsLoop e (validation # validations) binding auditAnnotations vs =
     (case evaluateExpression e (vExpression validation) vs of
        (Inl err, t) \<Rightarrow>
          (Inl (wrapQ ''evaluate validation expression'' (vExpression validation) err), t)
      | (Inr result, t) \<Rightarrow>
          (case result of
             GBool allowed \<Rightarrow>
               (if \<not> allowed then
                  after t (handleValidationFailure e validation binding auditAnnotations vs)
                else after t (validationsLoop e validations binding auditAnnotations vs))
           | _ \<Rightarrow> (Inl (ErrReturned errValidationNonBoolean (vExpression validation) result), t)))"

definition EvaluateValidating ::
  "('ast, 'prg, 'ls, 'sel) Evaluator \<Rightarrow> ValidatingAdmissionPolicy \<Rightarrow>
   'ls ValidatingAdmissionPolicyBinding option \<Rightarrow> AdmissionRequest option \<Rightarrow>
   gomap option \<Rightarrow> gomap option \<Rightarrow> gomap option \<Rightarrow> gomap option \<Rightarrow>
   MockAuthorizer option \<Rightarrow> UserInfo option \<Rightarrow> EvaluationResult traced" where
  "EvaluateValidating e policy binding request object oldObject params namespaceObj
     authorizer userInfo =
     (case matchesNamespaceSelector e binding namespaceObj of
        Inl err \<Rightarrow> (Inl (wrap ''evaluate namespace selector'' err), [])
      | Inr matched \<Rightarrow>
          (if \<not> matched then (Inr allowedResult, [])
           else case convertAdmissionRequest e request of
                  Inl err \<Rightarrow> (Inl (wrap ''convert admission request'' err), [])
                | Inr requestMap \<Rightarrow>
                    (let vs = setupValidatingVars requestMap object oldObject params
                                namespaceObj authorizer userInfo
                     in case evaluateMatchConditions e (vapMatchConditions policy) vs of
                          (Inl err, t) \<Rightarrow> (Inl (wrap ''evaluate match conditions'' err), t)
                        | (Inr matched, t) \<Rightarrow>
                            (if \<not> matched then (Inr allowedResult, t)
                             else after t
                               (case evaluateAuditAnnotations e (vapAuditAnnotations policy) vs of
                                  (Inl err, t2) \<Rightarrow> (Inl err, t2)
                                | (Inr auditAnnotations, t2) \<Rightarrow>
                                    after t2 (validationsLoop e (vapValidations policy) binding
                                                auditAnnotations vs))))))"

section \<open>The mutation engine\<close>

text \<open>
  \<^verbatim>\<open>runtime.DeepCopyJSONValue\<close> of apimachinery, which \<^verbatim>\<open>Unstructured.DeepCopy\<close> calls on the
  \<^verbatim>\<open>Object\<close> map: it clones a \<^verbatim>\<open>map[string]any\<close> and a \<^verbatim>\<open>[]any\<close> that are not nil, returns a
  nil one, a \<^verbatim>\<open>string\<close>, an \<^verbatim>\<open>int64\<close>, a \<^verbatim>\<open>bool\<close>, a \<^verbatim>\<open>float64\<close>, nil and a \<^verbatim>\<open>json.Number\<close> as
  they are, and panics on a value of any other type. On values the clone of a map is a
  map with the same entries.
\<close>

fun DeepCopyJSONValue :: "goval \<Rightarrow> error + goval"
  and DeepCopyJSONSlice :: "goval list \<Rightarrow> error + goval list"
  and DeepCopyJSONMap :: "(string \<times> goval) list \<Rightarrow> error + (string \<times> goval) list" where
  "DeepCopyJSONValue (GMap m) =
     (case DeepCopyJSONMap m of Inl err \<Rightarrow> Inl err | Inr clone \<Rightarrow> Inr (GMap clone))"
| "DeepCopyJSONValue GNilMap = Inr GNilMap"
| "DeepCopyJSONValue (GSlice s) =
     (case DeepCopyJSONSlice s of Inl err \<Rightarrow> Inl err | Inr clone \<Rightarrow> Inr (GSlice clone))"
| "DeepCopyJSONValue GNilSlice = Inr GNilSlice"
| "DeepCopyJSONValue (GString s) = Inr (GString s)"
| "DeepCopyJSONValue (GInt i) = Inr (GInt i)"
| "DeepCopyJSONValue (GBool b) = Inr (GBool b)"
| "DeepCopyJSONValue (GFloat x) = Inr (GFloat x)"
| "DeepCopyJSONValue GNil = Inr GNil"
| "DeepCopyJSONValue (GNumber n) = Inr (GNumber n)"
| "DeepCopyJSONValue v = Inl (GoPanic ''cannot deep copy'')"
| "DeepCopyJSONSlice [] = Inr []"
| "DeepCopyJSONSlice (x # xs) =
     (case DeepCopyJSONValue x of
        Inl err \<Rightarrow> Inl err
      | Inr y \<Rightarrow> (case DeepCopyJSONSlice xs of Inl err \<Rightarrow> Inl err | Inr ys \<Rightarrow> Inr (y # ys)))"
| "DeepCopyJSONMap [] = Inr []"
| "DeepCopyJSONMap ((k, x) # m) =
     (case DeepCopyJSONValue x of
        Inl err \<Rightarrow> Inl err
      | Inr y \<Rightarrow> (case DeepCopyJSONMap m of Inl err \<Rightarrow> Inl err | Inr m' \<Rightarrow> Inr ((k, y) # m')))"

text \<open>\<^verbatim>\<open>(*Unstructured).DeepCopy\<close>: nil for a nil receiver.\<close>

definition DeepCopy :: "gomap option \<Rightarrow> error + gomap option" where
  "DeepCopy object =
     (case object of
        None \<Rightarrow> Inr None
      | Some m \<Rightarrow> (case DeepCopyJSONMap m of Inl err \<Rightarrow> Inl err | Inr clone \<Rightarrow> Inr (Some clone)))"

text \<open>
  \<open>convertCELValue\<close>: a \<^verbatim>\<open>ref.Val\<close> is replaced by its \<^verbatim>\<open>Value()\<close> first (\<open>GRef\<close>, a
  lister, a \<^verbatim>\<open>*JSONPatchVal\<close> and the authorizer value are the \<^verbatim>\<open>ref.Val\<close>s), then
  \<open>convertNative\<close> is the chain of type tests on the result: \<^verbatim>\<open>map[ref.Val]ref.Val\<close>,
  \<^verbatim>\<open>[]ref.Val\<close>, \<^verbatim>\<open>map[string]any\<close>, \<^verbatim>\<open>[]any\<close>, anything else. A nil map or slice passes
  the type test and is replaced by the empty one that \<^verbatim>\<open>make\<close> returns.
\<close>

fun convertCELValue :: "goval \<Rightarrow> goval"
  and convertNative :: "goval \<Rightarrow> goval"
  and convertSlice :: "goval list \<Rightarrow> goval list"
  and convertMap :: "(string \<times> goval) list \<Rightarrow> (string \<times> goval) list"
  and convertRefMap :: "(goval \<times> goval) list \<Rightarrow> (string \<times> goval) list \<Rightarrow> (string \<times> goval) list"
  where
  "convertCELValue (GRef t v) = convertNative v"
| "convertCELValue (GLister xs) = GSlice (convertSlice xs)"
| "convertCELValue (GPatch op path from v) = GPatch op path from v"
| "convertCELValue (GAuthorizer a u) = GAuthorizer a u"
| "convertCELValue v = convertNative v"
| "convertNative (GRefMap m) = GMap (convertRefMap m [])"
| "convertNative (GRefSlice s) = GSlice (convertSlice s)"
| "convertNative (GMap m) = GMap (convertMap m)"
| "convertNative GNilMap = GMap []"
| "convertNative (GSlice s) = GSlice (convertSlice s)"
| "convertNative GNilSlice = GSlice []"
| "convertNative v = v"
| "convertSlice [] = []"
| "convertSlice (item # s) = convertCELValue item # convertSlice s"
| "convertMap [] = []"
| "convertMap ((k, v) # m) = (k, convertCELValue v) # convertMap m"
| "convertRefMap [] result = result"
| "convertRefMap ((k, v) # m) result =
     (case Value k of
        GString keyStr \<Rightarrow> convertRefMap m (AList.update keyStr (convertCELValue v) result)
      | _ \<Rightarrow> convertRefMap m result)"

text \<open>
  \<open>mergeObjects dst src\<close> returns \<open>dst\<close> after the loop over the entries of \<open>src\<close>. Where
  the code recurses into the map \<open>dst[key]\<close> in place, the entry of \<open>dst\<close> is the merged
  map. A nil map passes the type test \<^verbatim>\<open>.(map[string]any)\<close>: the loop over a nil \<open>src\<close>
  does nothing, and the first assignment to a nil \<open>dst\<close> panics.
\<close>

fun mergeObjects :: "gomap \<Rightarrow> gomap \<Rightarrow> error + gomap" where
  "mergeObjects dst [] = Inr dst"
| "mergeObjects dst ((key, srcVal) # src) =
     (case map_of dst key of
        Some (GMap dstMap) \<Rightarrow>
          (case srcVal of
             GMap srcMap \<Rightarrow>
               (case mergeObjects dstMap srcMap of
                  Inl err \<Rightarrow> Inl err
                | Inr merged \<Rightarrow> mergeObjects (AList.update key (GMap merged) dst) src)
           | GNilMap \<Rightarrow> mergeObjects dst src
           | _ \<Rightarrow> mergeObjects (AList.update key srcVal dst) src)
      | Some GNilMap \<Rightarrow>
          (case srcVal of
             GMap srcMap \<Rightarrow>
               (if srcMap = [] then mergeObjects dst src
                else Inl (GoPanic ''assignment to entry in nil map''))
           | GNilMap \<Rightarrow> mergeObjects dst src
           | _ \<Rightarrow> mergeObjects (AList.update key srcVal dst) src)
      | _ \<Rightarrow> mergeObjects (AList.update key srcVal dst) src)"

text \<open>The loop of \<^verbatim>\<open>applyApplyConfigurations\<close> over the configurations, which are
  non-nil pointers, given by their \<^verbatim>\<open>Object\<close> maps.\<close>

fun mergeConfigurations :: "gomap \<Rightarrow> gomap list \<Rightarrow> error + gomap" where
  "mergeConfigurations result [] = Inr result"
| "mergeConfigurations result (config # configs) =
     (case mergeObjects result config of
        Inl err \<Rightarrow> Inl err
      | Inr merged \<Rightarrow> mergeConfigurations merged configs)"

text \<open>Reading \<^verbatim>\<open>result.Object\<close> of a nil \<open>result\<close> panics.\<close>

definition applyApplyConfigurations :: "gomap list \<Rightarrow> gomap option \<Rightarrow> error + gomap option" where
  "applyApplyConfigurations configs object =
     (if configs = [] then Inr object
      else case DeepCopy object of
             Inl err \<Rightarrow> Inl err
           | Inr None \<Rightarrow> Inl (GoPanic ''nil pointer dereference'')
           | Inr (Some result) \<Rightarrow>
               (case mergeConfigurations result configs of
                  Inl err \<Rightarrow> Inl err
                | Inr merged \<Rightarrow> Inr (Some merged)))"

definition evaluateJSONPatchMutation ::
  "('ast, 'prg, 'ls, 'sel) Evaluator \<Rightarrow> Mutation \<Rightarrow> vars \<Rightarrow> goval traced" where
  "evaluateJSONPatchMutation e mutation vs =
     (case mJSONPatch mutation of
        None \<Rightarrow> (Inr GNil, [])
      | Some expression \<Rightarrow>
          (case evaluateExpression e expression vs of
             (Inl err, t) \<Rightarrow> (Inl (wrap ''evaluate JSONPatch expression'' err), t)
           | (Inr patchResult, t) \<Rightarrow> (Inr patchResult, t)))"

definition evaluateApplyConfigurationMutation ::
  "('ast, 'prg, 'ls, 'sel) Evaluator \<Rightarrow> Mutation \<Rightarrow> vars \<Rightarrow> gomap option traced" where
  "evaluateApplyConfigurationMutation e mutation vs =
     (case mApplyConfiguration mutation of
        None \<Rightarrow> (Inr None, [])
      | Some expression \<Rightarrow>
          (case evaluateExpressionRaw e expression vs of
             (Inl err, t) \<Rightarrow> (Inl (wrap ''evaluate ApplyConfiguration expression'' err), t)
           | (Inr patchResult, t) \<Rightarrow>
               (if patchResult = GNil then (Inr None, t)
                else case patchResult of
                       GRef ObjectValT objVal \<Rightarrow>
                         (case convertCELValue patchResult of
                            GMap convertedValue \<Rightarrow> (Inr (Some convertedValue), t)
                          | other \<Rightarrow> (Inl (ErrType errConvertCELUnexpectedType other), t))
                     | _ \<Rightarrow> (Inl (ErrType errApplyConfigNotObject patchResult), t))))"

text \<open>\<open>Some\<close> the elements to iterate over, \<open>None\<close> for \<^verbatim>\<open>skip\<close>.\<close>

fun listerFromPatch :: "goval \<Rightarrow> goval list option" where
  "listerFromPatch (GLister xs) = Some xs"
| "listerFromPatch (GRefSlice celArr) = Some celArr"
| "listerFromPatch p = None"

text \<open>The method \<^verbatim>\<open>ConvertToNative\<close> of a CEL value: a \<^verbatim>\<open>*JSONPatchVal\<close> converts to its own
  type only, a call on the nil interface panics, every other value is cel-go's.\<close>

definition ConvertToNative ::
  "('ast, 'prg, 'ls, 'sel) Evaluator \<Rightarrow> goval \<Rightarrow> string \<Rightarrow> error + goval" where
  "ConvertToNative e v typeDesc =
     (case v of
        GNil \<Rightarrow> Inl (GoPanic ''nil pointer dereference'')
      | GPatch op path from val \<Rightarrow>
          (if typeDesc = ''*mutation.JSONPatchVal'' then Inr v
           else Inl (ErrLib ''cannot convert to native type''))
      | _ \<Rightarrow> (case celConvertToNative e v typeDesc of
                Inl err \<Rightarrow> Inl (ErrLib err)
              | Inr native \<Rightarrow> Inr native))"

definition buildJSONPatchOperation ::
  "('ast, 'prg, 'ls, 'sel) Evaluator \<Rightarrow> goval \<Rightarrow> error + Operation" where
  "buildJSONPatchOperation e v =
     (case ConvertToNative e v ''*mutation.JSONPatchVal'' of
        Inl err \<Rightarrow> Inl (wrap ''convert patch element'' err)
      | Inr patchObj \<Rightarrow>
          (case patchObj of
             GPatch op path from val \<Rightarrow>
               (let resultOp = \<lparr>opOp = strconvQuote e op, opPath = strconvQuote e path,
                                opFrom = None, opValue = None\<rparr>;
                    resultOp = (if from \<noteq> '''' then resultOp\<lparr>opFrom := Some (strconvQuote e from)\<rparr>
                                else resultOp)
                in case val of
                     None \<Rightarrow> Inr resultOp
                   | Some pv \<Rightarrow>
                       (case ConvertToNative e pv ''*structpb.Value'' of
                          Inl err \<Rightarrow> Inl (wrap ''convert patch value'' err)
                        | Inr converted \<Rightarrow>
                            (case jsonMarshal e converted of
                               Inl err \<Rightarrow> Inl (ErrWrap ''marshal patch value'' (ErrLib err))
                             | Inr b \<Rightarrow> Inr (resultOp\<lparr>opValue := Some b\<rparr>))))
           | _ \<Rightarrow> Inl (ErrType errUnexpectedPatchType patchObj)))"

text \<open>\<open>appendPatchOperations items result\<close>: the patch \<open>result\<close> with the operations of
  the iterator's remaining elements appended.\<close>

fun appendPatchOperations ::
  "('ast, 'prg, 'ls, 'sel) Evaluator \<Rightarrow> goval list \<Rightarrow> Operation list \<Rightarrow> error + Operation list"
  where
  "appendPatchOperations e [] result = Inr result"
| "appendPatchOperations e (item # items) result =
     (case buildJSONPatchOperation e item of
        Inl err \<Rightarrow> Inl err
      | Inr op \<Rightarrow> appendPatchOperations e items (result @ [op]))"

definition applyPatchOperations ::
  "('ast, 'prg, 'ls, 'sel) Evaluator \<Rightarrow> Operation list \<Rightarrow> gomap option \<Rightarrow> error + gomap option"
  where
  "applyPatchOperations e result object =
     (case object of
        None \<Rightarrow> Inl (GoPanic ''nil pointer dereference'')
      | Some obj \<Rightarrow>
          (case jsonMarshal e (GMap obj) of
             Inl err \<Rightarrow> Inl (ErrWrap ''marshal object'' (ErrLib err))
           | Inr objectJSON \<Rightarrow>
               (case patchApply e result objectJSON of
                  Inl err \<Rightarrow> Inl (ErrWrap ''apply patch'' (ErrLib err))
                | Inr patchedJSON \<Rightarrow>
                    (case jsonUnmarshal e patchedJSON of
                       Inl err \<Rightarrow> Inl (ErrWrap ''unmarshal patched object'' (ErrLib err))
                     | Inr patchedObject \<Rightarrow> Inr (Some patchedObject)))))"

text \<open>The loop of \<^verbatim>\<open>applyJSONPatches\<close> over the patches, collecting operations.\<close>

fun collectPatchOperations ::
  "('ast, 'prg, 'ls, 'sel) Evaluator \<Rightarrow> goval list \<Rightarrow> Operation list \<Rightarrow> error + Operation list"
  where
  "collectPatchOperations e [] result = Inr result"
| "collectPatchOperations e (p # patches) result =
     (case listerFromPatch p of
        None \<Rightarrow> collectPatchOperations e patches result
      | Some items \<Rightarrow>
          (case appendPatchOperations e items result of
             Inl err \<Rightarrow> Inl err
           | Inr result' \<Rightarrow> collectPatchOperations e patches result'))"

definition applyJSONPatches ::
  "('ast, 'prg, 'ls, 'sel) Evaluator \<Rightarrow> goval list \<Rightarrow> gomap option \<Rightarrow> error + gomap option"
  where
  "applyJSONPatches e patches object =
     (if patches = [] then DeepCopy object
      else case collectPatchOperations e patches [] of
             Inl err \<Rightarrow> Inl err
           | Inr result \<Rightarrow>
               (if result = [] then DeepCopy object else applyPatchOperations e result object))"

text \<open>The loop of \<^verbatim>\<open>applyMutations\<close>, on the working object \<open>patchedObject\<close>.\<close>

fun mutationsLoop ::
  "('ast, 'prg, 'ls, 'sel) Evaluator \<Rightarrow> Mutation list \<Rightarrow> gomap option \<Rightarrow> vars \<Rightarrow>
   gomap option traced" where
  "mutationsLoop e [] patchedObject vs = (Inr patchedObject, [])"
| "mutationsLoop e (mutation # mutations) patchedObject vs =
     (case mPatchType mutation of
        PatchTypeJSONPatch \<Rightarrow>
          (case evaluateJSONPatchMutation e mutation vs of
             (Inl err, t) \<Rightarrow> (Inl err, t)
           | (Inr patch, t) \<Rightarrow>
               (if patch \<noteq> GNil then
                  (case applyJSONPatches e [patch] patchedObject of
                     Inl err \<Rightarrow> (Inl err, t)
                   | Inr patched \<Rightarrow> after t (mutationsLoop e mutations patched vs))
                else after t (mutationsLoop e mutations patchedObject vs)))
      | PatchTypeApplyConfiguration \<Rightarrow>
          (case evaluateApplyConfigurationMutation e mutation vs of
             (Inl err, t) \<Rightarrow> (Inl err, t)
           | (Inr config, t) \<Rightarrow>
               (case config of
                  Some c \<Rightarrow>
                    (case applyApplyConfigurations [c] patchedObject of
                       Inl err \<Rightarrow> (Inl err, t)
                     | Inr patched \<Rightarrow> after t (mutationsLoop e mutations patched vs))
                | None \<Rightarrow> after t (mutationsLoop e mutations patchedObject vs)))
      | PatchTypeOther other \<Rightarrow> (Inl (ErrDetail errUnsupportedPatchType other), []))"

definition applyMutations ::
  "('ast, 'prg, 'ls, 'sel) Evaluator \<Rightarrow> Mutation list \<Rightarrow> gomap option \<Rightarrow> vars \<Rightarrow>
   gomap option traced" where
  "applyMutations e mutations object vs =
     (case DeepCopy object of
        Inl err \<Rightarrow> (Inl err, [])
      | Inr patchedObject \<Rightarrow> mutationsLoop e mutations patchedObject vs)"

definition EvaluateMutating ::
  "('ast, 'prg, 'ls, 'sel) Evaluator \<Rightarrow> MutatingAdmissionPolicy \<Rightarrow>
   'ls MutatingAdmissionPolicyBinding option \<Rightarrow> AdmissionRequest option \<Rightarrow>
   gomap option \<Rightarrow> gomap option \<Rightarrow> gomap option \<Rightarrow> gomap option \<Rightarrow>
   MockAuthorizer option \<Rightarrow> UserInfo option \<Rightarrow> EvaluationResult traced" where
  "EvaluateMutating e policy binding request object oldObject params namespaceObj
     authorizer userInfo =
     (case matchesNamespaceSelectorV1Beta1 e binding namespaceObj of
        Inl err \<Rightarrow> (Inl (wrap ''evaluate namespace selector'' err), [])
      | Inr matched \<Rightarrow>
          (if \<not> matched then (Inr allowedResult, [])
           else case convertAdmissionRequest e request of
                  Inl err \<Rightarrow> (Inl (wrap ''convert admission request'' err), [])
                | Inr requestMap \<Rightarrow>
                    (case getPrimaryObject object oldObject of
                       None \<Rightarrow> (Inl errMutatingRequiresObject, [])
                     | Some primaryObject \<Rightarrow>
                         (let vs = prepareMutatingVars requestMap primaryObject oldObject params
                                     namespaceObj authorizer userInfo
                          in case evaluateMatchConditionsV1Beta1 e (mapMatchConditions policy) vs of
                               (Inl err, t) \<Rightarrow> (Inl (wrap ''evaluate match conditions'' err), t)
                             | (Inr matched, t) \<Rightarrow>
                                 (if \<not> matched then (Inr allowedResult, t)
                                  else after t
                                    (case applyMutations e (mapMutations policy) object vs of
                                       (Inl err, t2) \<Rightarrow> (Inl err, t2)
                                     | (Inr patchedObject, t2) \<Rightarrow>
                                         (Inr \<lparr>Allowed = True, Message = '''', Warnings = [],
                                               PatchedObject = patchedObject,
                                               AuditAnnotations = []\<rparr>, t2)))))))"

section \<open>The test oracle\<close>

record TestExpectation =
  teAllowed :: bool
  teMessage :: string
  teObject :: "gomap option"
  teWarnings :: "string list"
  teAuditAnnotations :: "(string \<times> string) list"

text \<open>The field \<^verbatim>\<open>EvaluationErr\<close> of \<^verbatim>\<open>TestOutcome\<close> is never written or read.\<close>

record TestOutcome =
  toAllowed :: bool
  toMessage :: string
  toObject :: "gomap option"
  toWarnings :: "string list"
  toAuditAnnotations :: "(string \<times> string) list"

record TestResult =
  trPassed :: bool
  trExpected :: TestExpectation
  trActual :: TestOutcome
  trMessage :: string
  trPatchedObject :: "gomap option"

text \<open>\<^verbatim>\<open>&TestResult{}\<close>\<close>

definition zeroTestResult :: TestResult where
  "zeroTestResult =
     \<lparr>trPassed = False,
      trExpected = \<lparr>teAllowed = False, teMessage = '''', teObject = None, teWarnings = [],
                     teAuditAnnotations = []\<rparr>,
      trActual = \<lparr>toAllowed = False, toMessage = '''', toObject = None, toWarnings = [],
                   toAuditAnnotations = []\<rparr>,
      trMessage = '''', trPatchedObject = None\<rparr>"

text \<open>
  What the oracle prints with: the verbs of \<^verbatim>\<open>fmt\<close> (\<^verbatim>\<open>%q\<close>, \<^verbatim>\<open>%d\<close>, \<^verbatim>\<open>%T\<close>, and \<^verbatim>\<open>%v\<close>,
  \<^verbatim>\<open>%+v\<close> on a string slice, a string map and an object), \<^verbatim>\<open>yaml.Marshal\<close>, and
  \<^verbatim>\<open>difflib.GetUnifiedDiffString\<close> as \<^verbatim>\<open>getDiff\<close> calls it (labels Expected and Actual, three
  lines of context) are parameters.
\<close>

record Fmt =
  fmtQuote :: "string \<Rightarrow> string"
  fmtInt :: "nat \<Rightarrow> string"
  fmtType :: "goval \<Rightarrow> string"
  fmtStrings :: "string list \<Rightarrow> string"
  fmtStringMap :: "(string \<times> string) list \<Rightarrow> string"
  fmtObject :: "gomap \<Rightarrow> string"
  yamlMarshalStringMap :: "(string \<times> string) list \<Rightarrow> string + string"
  yamlMarshalObject :: "gomap \<Rightarrow> string + string"
  getDiff :: "string \<Rightarrow> string \<Rightarrow> string"

text \<open>\<^verbatim>\<open>err.Error()\<close>, which \<^verbatim>\<open>%v\<close> prints.\<close>

fun Error :: "Fmt \<Rightarrow> error \<Rightarrow> string" where
  "Error f (ErrNew s) = s"
| "Error f (ErrLib s) = s"
| "Error f (ErrWrap c err) = c @ '': '' @ Error f err"
| "Error f (ErrWrapQ c q err) = c @ '' '' @ fmtQuote f q @ '': '' @ Error f err"
| "Error f (ErrDetail err d) = Error f err @ '': '' @ d"
| "Error f (ErrReturned err s v) = Error f err @ '': '' @ s @ '' returned '' @ fmtType f v"
| "Error f (ErrType err v) = Error f err @ '': '' @ fmtType f v"
| "Error f (GoPanic s) = s"

text \<open>\<^verbatim>\<open>%v\<close> on a \<^verbatim>\<open>bool\<close>\<close>

definition fmtBool :: "bool \<Rightarrow> string" where
  "fmtBool b = (if b then ''true'' else ''false'')"

text \<open>\<^verbatim>\<open>reflect.DeepEqual\<close> on two \<^verbatim>\<open>map[string]string\<close>: the same keys with the same
  values.\<close>

definition DeepEqualStringMap :: "(string \<times> string) list \<Rightarrow> (string \<times> string) list \<Rightarrow> bool" where
  "DeepEqualStringMap a b =
     (set (map fst a) = set (map fst b) \<and> (\<forall>k \<in> set (map fst a). map_of a k = map_of b k))"

text \<open>
  \<^verbatim>\<open>reflect.DeepEqual\<close> on two objects: two values of different dynamic types are never
  equal (an \<^verbatim>\<open>int64\<close> and a \<^verbatim>\<open>float64\<close>, a nil map and a \<^verbatim>\<open>string\<close>); two maps are equal when
  both are nil, or neither is and they have the same keys with deeply equal values; two
  slices when both are nil, or neither is and they have the same length and deeply equal
  elements; two \<^verbatim>\<open>float64\<close> when \<^verbatim>\<open>==\<close> holds.
\<close>

fun DeepEqual :: "goval \<Rightarrow> goval \<Rightarrow> bool"
  and DeepEqualEntries :: "(string \<times> goval) list \<Rightarrow> (string \<times> goval) list \<Rightarrow> bool"
  and DeepEqualSlice :: "goval list \<Rightarrow> goval list \<Rightarrow> bool" where
  "DeepEqual v w =
     (case v of
        GMap a \<Rightarrow>
          (case w of
             GMap b \<Rightarrow> set (map fst a) = set (map fst b) \<and> DeepEqualEntries a b
           | _ \<Rightarrow> False)
      | GSlice a \<Rightarrow> (case w of GSlice b \<Rightarrow> DeepEqualSlice a b | _ \<Rightarrow> False)
      | GFloat x \<Rightarrow> (case w of GFloat y \<Rightarrow> float64Eq x y | _ \<Rightarrow> False)
      | _ \<Rightarrow> v = w)"
| "DeepEqualEntries [] b = True"
| "DeepEqualEntries ((k, v) # a) b =
     ((case map_of b k of None \<Rightarrow> False | Some w \<Rightarrow> DeepEqual v w) \<and> DeepEqualEntries a b)"
| "DeepEqualSlice [] [] = True"
| "DeepEqualSlice (v # a) (w # b) = (DeepEqual v w \<and> DeepEqualSlice a b)"
| "DeepEqualSlice a b = False"

definition newline :: string where
  "newline = [CHR 0x0A]"

definition failed :: "string \<Rightarrow> TestResult" where
  "failed msg = zeroTestResult\<lparr>trPassed := False, trMessage := msg\<rparr>"

text \<open>The loop of \<^verbatim>\<open>checkWarnings\<close> from index \<open>i\<close> on; it runs when both slices have the
  same length, so \<open>actual ! i\<close> is in range.\<close>

fun checkWarningsLoop :: "Fmt \<Rightarrow> nat \<Rightarrow> string list \<Rightarrow> string list \<Rightarrow> TestResult option" where
  "checkWarningsLoop f i [] actual = None"
| "checkWarningsLoop f i (expectedWarning # expected) actual =
     (if actual ! i \<noteq> expectedWarning then
        (let diff = getDiff f expectedWarning (actual ! i)
         in if diff \<noteq> '''' then
              Some (failed (''warning['' @ fmtInt f i @ ''] does not match expected:'' @ newline
                            @ diff))
            else Some (failed (''warning['' @ fmtInt f i @ '']: expected ''
                               @ fmtQuote f expectedWarning @ '', got ''
                               @ fmtQuote f (actual ! i))))
      else checkWarningsLoop f (Suc i) expected actual)"

definition checkWarnings :: "Fmt \<Rightarrow> string list \<Rightarrow> string list \<Rightarrow> TestResult option" where
  "checkWarnings f expected actual =
     (if length expected = 0 then None
      else if length actual = 0 then
        Some (failed (''expected warnings '' @ fmtStrings f expected @ '', got none''))
      else if length actual \<noteq> length expected then
        Some (failed (''expected '' @ fmtInt f (length expected) @ '' warnings, got ''
                      @ fmtInt f (length actual)))
      else checkWarningsLoop f 0 expected actual)"

text \<open>The loop of \<^verbatim>\<open>checkAuditAnnotations\<close> over the expected keys.\<close>

fun filterActual ::
  "(string \<times> string) list \<Rightarrow> string list \<Rightarrow> (string \<times> string) list \<Rightarrow> (string \<times> string) list"
  where
  "filterActual actual [] actualFiltered = actualFiltered"
| "filterActual actual (k # ks) actualFiltered =
     (case map_of actual k of
        Some v \<Rightarrow> filterActual actual ks (AList.update k v actualFiltered)
      | None \<Rightarrow> filterActual actual ks actualFiltered)"

definition checkAuditAnnotations :: "Fmt \<Rightarrow> TestExpectation \<Rightarrow> TestOutcome \<Rightarrow> TestResult option"
  where
  "checkAuditAnnotations f expected actual =
     (if length (teAuditAnnotations expected) = 0 then None
      else
        (let actualFiltered =
               filterActual (toAuditAnnotations actual) (map fst (teAuditAnnotations expected)) []
         in if \<not> DeepEqualStringMap (teAuditAnnotations expected) actualFiltered then
              (let expectedYAML =
                     (case yamlMarshalStringMap f (teAuditAnnotations expected) of
                        Inl err \<Rightarrow> fmtStringMap f (teAuditAnnotations expected)
                      | Inr y \<Rightarrow> y);
                   actualYAML =
                     (case yamlMarshalStringMap f actualFiltered of
                        Inl err \<Rightarrow> fmtStringMap f actualFiltered
                      | Inr y \<Rightarrow> y);
                   diff = getDiff f expectedYAML actualYAML;
                   diff = (if diff = '''' then
                             ''Expected:'' @ newline @ expectedYAML @ newline @ ''Actual:''
                             @ newline @ actualYAML
                           else diff)
               in Some (failed (''audit annotations do not match expected:'' @ newline @ diff)))
            else None))"

definition checkMutatedObject :: "Fmt \<Rightarrow> TestExpectation \<Rightarrow> TestOutcome \<Rightarrow> TestResult option"
  where
  "checkMutatedObject f expected actual =
     (case teObject expected of
        None \<Rightarrow> None
      | Some expectedObject \<Rightarrow>
          (case toObject actual of
             None \<Rightarrow> Some (failed ''expected mutated object, got none'')
           | Some actualObject \<Rightarrow>
               (if \<not> DeepEqual (GMap expectedObject) (GMap actualObject) then
                  (let expectedYAML =
                         (case yamlMarshalObject f expectedObject of
                            Inl err \<Rightarrow> fmtObject f expectedObject
                          | Inr y \<Rightarrow> y);
                       actualYAML =
                         (case yamlMarshalObject f actualObject of
                            Inl err \<Rightarrow> fmtObject f actualObject
                          | Inr y \<Rightarrow> y);
                       diff = getDiff f expectedYAML actualYAML;
                       diff = (if diff = '''' then
                                 ''Expected:'' @ newline @ expectedYAML @ newline @ ''Actual:''
                                 @ newline @ actualYAML
                               else diff)
                   in Some (failed (''mutated object does not match expected:'' @ newline @ diff)))
                else None)))"

definition validateTestResult ::
  "Fmt \<Rightarrow> TestResult \<Rightarrow> TestExpectation \<Rightarrow> TestOutcome \<Rightarrow> TestResult" where
  "validateTestResult f result expected actual =
     (if toAllowed actual \<noteq> teAllowed expected then
        result\<lparr>trPassed := False,
               trMessage := ''expected allowed='' @ fmtBool (teAllowed expected)
                            @ '', got allowed='' @ fmtBool (toAllowed actual)\<rparr>
      else case checkAuditAnnotations f expected actual of
             Some chk \<Rightarrow> chk
           | None \<Rightarrow>
               (case checkWarnings f (teWarnings expected) (toWarnings actual) of
                  Some chk \<Rightarrow> result\<lparr>trPassed := False, trMessage := trMessage chk\<rparr>
                | None \<Rightarrow>
                    (if teMessage expected \<noteq> '''' \<and> toMessage actual \<noteq> teMessage expected then
                       (let diff = getDiff f (teMessage expected) (toMessage actual)
                        in if diff \<noteq> '''' then
                             result\<lparr>trPassed := False,
                                    trMessage := ''message does not match expected:'' @ newline
                                                 @ diff\<rparr>
                           else
                             result\<lparr>trPassed := False,
                                    trMessage := ''expected message ''
                                                 @ fmtQuote f (teMessage expected) @ '', got ''
                                                 @ fmtQuote f (toMessage actual)\<rparr>)
                     else case checkMutatedObject f expected actual of
                            Some chk \<Rightarrow> chk
                          | None \<Rightarrow> result\<lparr>trPassed := True\<rparr>)))"

section \<open>Running one test\<close>

text \<open>The \<^verbatim>\<open>TestCase\<close> interface, by what its getters return.\<close>

record TestCase =
  GetRequest :: "AdmissionRequest option"
  GetObject :: "gomap option"
  GetOldObject :: "gomap option"
  GetParams :: "gomap option"
  GetNamespaceObj :: "gomap option"
  GetUserInfo :: "UserInfo option"
  GetExpectAllowed :: bool
  GetExpectMessage :: string
  GetExpectWarnings :: "string list"
  GetExpectAuditAnnotations :: "(string \<times> string) list"
  GetExpectedObject :: "gomap option"
  GetError :: "error option"
  GetAuthorizer :: "AuthorizationMockConfig list"

text \<open>The result is a pointer: \<open>None\<close> is the nil \<^verbatim>\<open>*EvaluationResult\<close>.\<close>

definition evaluatePolicy ::
  "('ast, 'prg, 'ls, 'sel) Evaluator \<Rightarrow> MutatingAdmissionPolicy option \<Rightarrow>
   'ls MutatingAdmissionPolicyBinding option \<Rightarrow> ValidatingAdmissionPolicy option \<Rightarrow>
   'ls ValidatingAdmissionPolicyBinding option \<Rightarrow> TestCase \<Rightarrow> EvaluationResult option traced"
  where
  "evaluatePolicy e mutatingPolicy mutatingBinding validatingPolicy validatingBinding testCase =
     (let auth = (if length (GetAuthorizer testCase) > 0 then
                    Some (NewMockAuthorizerFromConfig (GetAuthorizer testCase))
                  else None)
      in case mutatingPolicy of
           Some mp \<Rightarrow>
             (case EvaluateMutating e mp mutatingBinding (GetRequest testCase)
                     (GetObject testCase) (GetOldObject testCase) (GetParams testCase)
                     (GetNamespaceObj testCase) auth (GetUserInfo testCase) of
                (Inl err, t) \<Rightarrow> (Inl err, t)
              | (Inr r, t) \<Rightarrow> (Inr (Some r), t))
         | None \<Rightarrow>
             (case validatingPolicy of
                Some vp \<Rightarrow>
                  (case EvaluateValidating e vp validatingBinding (GetRequest testCase)
                          (GetObject testCase) (GetOldObject testCase) (GetParams testCase)
                          (GetNamespaceObj testCase) auth (GetUserInfo testCase) of
                     (Inl err, t) \<Rightarrow> (Inl err, t)
                   | (Inr r, t) \<Rightarrow> (Inr (Some r), t))
              | None \<Rightarrow> (Inl errNoPolicy, [])))"

definition zeroTestOutcome :: TestOutcome where
  "zeroTestOutcome = \<lparr>toAllowed = False, toMessage = '''', toObject = None, toWarnings = [],
     toAuditAnnotations = []\<rparr>"

text \<open>\<open>EvaluateTest\<close> returns a test result unless the evaluation panics.\<close>

definition EvaluateTest ::
  "('ast, 'prg, 'ls, 'sel) Evaluator \<Rightarrow> Fmt \<Rightarrow> MutatingAdmissionPolicy option \<Rightarrow>
   'ls MutatingAdmissionPolicyBinding option \<Rightarrow> ValidatingAdmissionPolicy option \<Rightarrow>
   'ls ValidatingAdmissionPolicyBinding option \<Rightarrow> TestCase \<Rightarrow> TestResult traced" where
  "EvaluateTest e f mutatingPolicy mutatingBinding validatingPolicy validatingBinding testCase =
     (let expected = \<lparr>teAllowed = GetExpectAllowed testCase,
                       teMessage = GetExpectMessage testCase,
                       teObject = GetExpectedObject testCase,
                       teWarnings = GetExpectWarnings testCase,
                       teAuditAnnotations = GetExpectAuditAnnotations testCase\<rparr>
      in case GetError testCase of
           Some err \<Rightarrow>
             (Inr \<lparr>trPassed = False, trExpected = expected, trActual = zeroTestOutcome,
                   trMessage = ''test loading error: '' @ Error f err,
                   trPatchedObject = None\<rparr>, [])
         | None \<Rightarrow>
             (case evaluatePolicy e mutatingPolicy mutatingBinding validatingPolicy
                     validatingBinding testCase of
                (Inl err, t) \<Rightarrow>
                  (if isPanic err then (Inl err, t)
                   else (Inr \<lparr>trPassed = False, trExpected = expected,
                               trActual = zeroTestOutcome,
                               trMessage = ''evaluation error: '' @ Error f err,
                               trPatchedObject = None\<rparr>, t))
              | (Inr None, t) \<Rightarrow>
                  (Inr \<lparr>trPassed = False, trExpected = expected, trActual = zeroTestOutcome,
                        trMessage = ''no policy provided'', trPatchedObject = None\<rparr>, t)
              | (Inr (Some evalResult), t) \<Rightarrow>
                  (let actual = \<lparr>toAllowed = Allowed evalResult,
                                 toMessage = Message evalResult,
                                 toObject = (if PatchedObject evalResult \<noteq> None
                                             then PatchedObject evalResult
                                             else GetObject testCase),
                                 toWarnings = Warnings evalResult,
                                 toAuditAnnotations = AuditAnnotations evalResult\<rparr>;
                       result = \<lparr>trPassed = False, trExpected = expected, trActual = actual,
                                 trMessage = '''',
                                 trPatchedObject = PatchedObject evalResult\<rparr>
                   in (Inr (validateTestResult f result expected actual), t))))"

section \<open>Notions the statements use\<close>

text \<open>The string of a value that is a string with non-blank content, and the first
  element of a binding's \<^verbatim>\<open>validationActions\<close>, if there is one.\<close>

definition nonBlankString :: "('ast, 'prg, 'ls, 'sel) Evaluator \<Rightarrow> goval \<Rightarrow> string option" where
  "nonBlankString e v =
     (case v of GString s \<Rightarrow> (if TrimSpace e s \<noteq> '''' then Some s else None) | _ \<Rightarrow> None)"

definition firstValidationAction :: "'ls ValidatingAdmissionPolicyBinding option \<Rightarrow> string option" where
  "firstValidationAction binding =
     (case binding of
        None \<Rightarrow> None
      | Some b \<Rightarrow> (case vbValidationActions b of [] \<Rightarrow> None | action # rest \<Rightarrow> Some action))"

section \<open>An environment for the examples\<close>

text \<open>
  The examples run on this environment: its CEL environment compiles the expressions of a
  table and evaluates each to the value the table gives; a label selector is a list of
  labels that must all be present; the JSON and YAML decoders know the empty object only;
  applying a patch fails; \<^verbatim>\<open>TrimSpace\<close> trims blanks.
\<close>

definition exampleGetLabels :: "gomap \<Rightarrow> (string \<times> string) list" where
  "exampleGetLabels obj =
     (case map_of obj ''metadata'' of
        Some (GMap metadata) \<Rightarrow>
          (case map_of metadata ''labels'' of
             Some (GMap labels) \<Rightarrow>
               concat (map (\<lambda>(k, v). case v of GString s \<Rightarrow> [(k, s)] | _ \<Rightarrow> []) labels)
           | _ \<Rightarrow> [])
      | _ \<Rightarrow> [])"

definition exampleEvaluator ::
  "(string \<times> goval) list \<Rightarrow> (string, string, (string \<times> string) list, (string \<times> string) list) Evaluator"
  where
  "exampleEvaluator table =
     \<lparr>celCompile = (\<lambda>x. if map_of table x \<noteq> None then Inr x else Inl ''undeclared reference''),
      celProgram = (\<lambda>ast. Inr ast),
      celEval = (\<lambda>prg vs. case map_of table prg of
                             Some v \<Rightarrow> Inr v
                           | None \<Rightarrow> Inl ''no such key''),
      celConvertToNative = (\<lambda>v typeDesc. if typeDesc = ''*structpb.Value'' then Inr (Value v)
                                          else Inl ''unsupported type conversion''),
      LabelSelectorAsSelector = (\<lambda>ls. Inr ls),
      selectorEmpty = (\<lambda>sel. sel = []),
      selectorMatches = (\<lambda>sel labels. list_all (\<lambda>(k, v). map_of labels k = Some v) sel),
      GetLabels = exampleGetLabels,
      jsonUnmarshal = (\<lambda>raw. if raw = ''{}'' then Inr [] else Inl ''cannot unmarshal''),
      yamlUnmarshal = (\<lambda>raw. if raw = ''{}'' then Inr [] else Inl ''cannot unmarshal''),
      jsonMarshal = (\<lambda>v. Inr ''{}''),
      patchApply = (\<lambda>ops doc. Inl ''missing path''),
      strconvQuote = (\<lambda>s. s),
      TrimSpace = (\<lambda>s. rev (dropWhile (\<lambda>c. c = CHR '' '') (rev (dropWhile (\<lambda>c. c = CHR '' '') s))))\<rparr>"

definition examplePod :: gomap where
  "examplePod =
     [(''apiVersion'', GString ''v1''), (''kind'', GString ''Pod''),
      (''metadata'', GMap [(''name'', GString ''p''), (''namespace'', GString ''default''),
                           (''labels'', GMap [(''app'', GString ''a'')])])]"

definition exampleTable :: "(string \<times> goval) list" where
  "exampleTable =
     [(''true'', GRef OtherValT (GBool True)),
      (''false'', GRef OtherValT (GBool False)),
      (''1'', GRef OtherValT (GInt 1)),
      (''object.kind'', GRef OtherValT (GString ''Pod'')),
      (''string()'', GRef OtherValT (GString ''''))]"

definition examplePolicy :: ValidatingAdmissionPolicy where
  "examplePolicy =
     \<lparr>vapMatchConditions = [\<lparr>mcName = ''always'', mcExpression = ''true''\<rparr>],
      vapValidations = [\<lparr>vExpression = ''true'', vMessage = ''first'', vMessageExpression = ''''\<rparr>,
                        \<lparr>vExpression = ''false'', vMessage = ''warn me'',
                         vMessageExpression = ''object.kind''\<rparr>,
                        \<lparr>vExpression = ''invalid('', vMessage = '''', vMessageExpression = ''''\<rparr>],
      vapAuditAnnotations = [\<lparr>aaKey = ''kind'', aaValueExpression = ''object.kind''\<rparr>,
                             \<lparr>aaKey = ''empty'', aaValueExpression = ''string()''\<rparr>,
                             \<lparr>aaKey = ''number'', aaValueExpression = ''1''\<rparr>]\<rparr>"

definition exampleGatedPolicy :: ValidatingAdmissionPolicy where
  "exampleGatedPolicy =
     \<lparr>vapMatchConditions = [\<lparr>mcName = ''always'', mcExpression = ''true''\<rparr>,
                            \<lparr>mcName = ''never'', mcExpression = ''false''\<rparr>,
                            \<lparr>mcName = ''broken'', mcExpression = ''invalid(''\<rparr>],
      vapValidations = [\<lparr>vExpression = ''invalid('', vMessage = '''', vMessageExpression = ''''\<rparr>],
      vapAuditAnnotations = [\<lparr>aaKey = ''broken'', aaValueExpression = ''invalid(''\<rparr>]\<rparr>"

definition exampleGatedMutatingPolicy :: MutatingAdmissionPolicy where
  "exampleGatedMutatingPolicy =
     \<lparr>mapMatchConditions = [\<lparr>mcName = ''always'', mcExpression = ''true''\<rparr>,
                            \<lparr>mcName = ''never'', mcExpression = ''false''\<rparr>,
                            \<lparr>mcName = ''broken'', mcExpression = ''invalid(''\<rparr>],
      mapMutations = [\<lparr>mPatchType = PatchTypeJSONPatch, mJSONPatch = Some ''invalid('',
                        mApplyConfiguration = None\<rparr>]\<rparr>"

text \<open>What the audit-annotation step records for one annotation: the value of its
  expression when that is a string with non-empty content.\<close>

definition recordedValue ::
  "('ast, 'prg, 'ls, 'sel) Evaluator \<Rightarrow> vars \<Rightarrow> AuditAnnotation \<Rightarrow> string option" where
  "recordedValue e vs annotation =
     (case fst (evaluateExpression e (aaValueExpression annotation) vs) of
        Inr (GString s) \<Rightarrow> (if s \<noteq> '''' then Some s else None)
      | _ \<Rightarrow> None)"

definition exampleRequest :: AdmissionRequest where
  "exampleRequest =
     \<lparr>reqUID = '''',
      reqKind = \<lparr>gvkGroup = '''', gvkVersion = ''v1'', gvkKind = ''Pod''\<rparr>,
      reqResource = \<lparr>gvrGroup = '''', gvrVersion = ''v1'', gvrResource = ''pods''\<rparr>,
      reqSubResource = '''', reqName = ''p'', reqNamespace = ''default'',
      reqOperation = ''CREATE'',
      reqUserInfo = \<lparr>Username = ''admin'', UID = '''', Groups = [], Extra = []\<rparr>,
      reqOptionsRaw = Some ''{}'', reqDryRun = Some False\<rparr>"

definition emptyRequest :: AdmissionRequest where
  "emptyRequest =
     \<lparr>reqUID = '''',
      reqKind = \<lparr>gvkGroup = '''', gvkVersion = '''', gvkKind = ''''\<rparr>,
      reqResource = \<lparr>gvrGroup = '''', gvrVersion = '''', gvrResource = ''''\<rparr>,
      reqSubResource = '''', reqName = '''', reqNamespace = '''', reqOperation = '''',
      reqUserInfo = \<lparr>Username = '''', UID = '''', Groups = [], Extra = []\<rparr>,
      reqOptionsRaw = None, reqDryRun = None\<rparr>"

definition exampleMutatingPolicy :: MutatingAdmissionPolicy where
  "exampleMutatingPolicy =
     \<lparr>mapMatchConditions = [],
      mapMutations = [\<lparr>mPatchType = PatchTypeJSONPatch, mJSONPatch = Some ''object.kind'',
                        mApplyConfiguration = None\<rparr>]\<rparr>"

definition undecodableRequest :: AdmissionRequest where
  "undecodableRequest =
     \<lparr>reqUID = '''',
      reqKind = \<lparr>gvkGroup = '''', gvkVersion = '''', gvkKind = ''''\<rparr>,
      reqResource = \<lparr>gvrGroup = '''', gvrVersion = '''', gvrResource = ''''\<rparr>,
      reqSubResource = '''', reqName = '''', reqNamespace = '''', reqOperation = ''DELETE'',
      reqUserInfo = \<lparr>Username = '''', UID = '''', Groups = [], Extra = []\<rparr>,
      reqOptionsRaw = Some ''[1]'', reqDryRun = None\<rparr>"

text \<open>Whether a value is a \<^verbatim>\<open>map[string]any\<close>.\<close>

fun isMapping :: "goval \<Rightarrow> bool" where
  "isMapping (GMap m) = True"
| "isMapping v = False"

definition exampleDeployment :: gomap where
  "exampleDeployment =
     [(''kind'', GString ''Deployment''),
      (''metadata'', GMap [(''name'', GString ''d''), (''labels'', GMap [(''app'', GString ''a'')])]),
      (''spec'', GMap [(''replicas'', GInt 1),
                       (''ports'', GSlice [GInt 80, GInt 443])])]"

definition exampleConfiguration :: goval where
  "exampleConfiguration =
     GRef ObjectValT
       (GMap [(''metadata'', GMap [(''labels'', GMap [(''env'', GString ''prod'')])]),
              (''spec'', GMap [(''ports'', GSlice [GInt 8080])]),
              (''kind'', GMap [(''was'', GString ''scalar'')]),
              (''status'', GString ''new'')])"

definition exampleApplyMutation :: Mutation where
  "exampleApplyMutation =
     \<lparr>mPatchType = PatchTypeApplyConfiguration, mJSONPatch = None,
      mApplyConfiguration = Some ''Object{}''\<rparr>"





text \<open>A printer for the examples: decimal numbers, quotes around \<^verbatim>\<open>%q\<close>, one line per
  entry for YAML, and a diff that shows the two texts when they differ.\<close>

fun exampleDecimal :: "nat \<Rightarrow> string" where
  "exampleDecimal n =
     (if n < 10 then [''0123456789'' ! n]
      else exampleDecimal (n div 10) @ [''0123456789'' ! (n mod 10)])"

definition exampleFmt :: Fmt where
  "exampleFmt =
     \<lparr>fmtQuote = (\<lambda>s. [CHR 0x22] @ s @ [CHR 0x22]),
      fmtInt = exampleDecimal,
      fmtType = (\<lambda>v. case v of GBool b \<Rightarrow> ''bool'' | GInt i \<Rightarrow> ''int64''
                          | GString s \<Rightarrow> ''string'' | _ \<Rightarrow> ''ref.Val''),
      fmtStrings = (\<lambda>xs. ''['' @ concat (map (\<lambda>x. x @ '' '') xs) @ '']''),
      fmtStringMap = (\<lambda>m. ''map['' @ concat (map (\<lambda>(k, v). k @ '':'' @ v @ '' '') m) @ '']''),
      fmtObject = (\<lambda>m. ''map['' @ concat (map (\<lambda>(k, v). k @ '' '') m) @ '']''),
      yamlMarshalStringMap = (\<lambda>m. Inr (concat (map (\<lambda>(k, v). k @ '': '' @ v @ newline) m))),
      yamlMarshalObject = (\<lambda>m. Inr (concat (map (\<lambda>(k, v). k @ '': ...'' @ newline) m))),
      getDiff = (\<lambda>a b. if a = b then '''' else ''-'' @ a @ newline @ ''+'' @ b)\<rparr>"



text \<open>A fatal evaluator error: the evaluation returns an error, and did not panic. A
  trace of expressions that all compile.\<close>

definition fatal :: "'a traced \<Rightarrow> bool" where
  "fatal r = (\<exists>err. fst r = Inl err \<and> \<not> isPanic err)"

definition compiles :: "('ast, 'prg, 'ls, 'sel) Evaluator \<Rightarrow> string list \<Rightarrow> bool" where
  "compiles e t = (\<forall>x \<in> set t. \<exists>ast. celCompile e x = Inr ast)"






text \<open>A test case for a \<^verbatim>\<open>DELETE\<close>: the pod is the old object, and there is no object.\<close>

definition exampleDeleteRequest :: AdmissionRequest where
  "exampleDeleteRequest =
     \<lparr>reqUID = '''',
      reqKind = \<lparr>gvkGroup = '''', gvkVersion = ''v1'', gvkKind = ''Pod''\<rparr>,
      reqResource = \<lparr>gvrGroup = '''', gvrVersion = ''v1'', gvrResource = ''pods''\<rparr>,
      reqSubResource = '''', reqName = ''p'', reqNamespace = ''default'',
      reqOperation = ''DELETE'',
      reqUserInfo = \<lparr>Username = ''admin'', UID = '''', Groups = [], Extra = []\<rparr>,
      reqOptionsRaw = None, reqDryRun = None\<rparr>"

definition exampleDeleteCase :: TestCase where
  "exampleDeleteCase =
     \<lparr>GetRequest = Some exampleDeleteRequest, GetObject = None, GetOldObject = Some examplePod,
      GetParams = None, GetNamespaceObj = None, GetUserInfo = None, GetExpectAllowed = True,
      GetExpectMessage = '''', GetExpectWarnings = [], GetExpectAuditAnnotations = [],
      GetExpectedObject = None, GetError = None, GetAuthorizer = []\<rparr>"

section \<open>Traces and loops\<close>

lemma fst_after [simp]: "fst (after t m) = fst m"
  by (simp add: after_def)

lemma snd_after [simp]: "snd (after t m) = t @ snd m"
  by (simp add: after_def)

lemma snd_evaluateExpressionRaw [simp]: "snd (evaluateExpressionRaw e x vs) = [x]"
  by (simp add: evaluateExpressionRaw_def)

lemma snd_evaluateExpression [simp]: "snd (evaluateExpression e x vs) = [x]"
  by (simp add: evaluateExpression_def split: prod.splits sum.splits)
     (metis snd_conv snd_evaluateExpressionRaw)+

lemma evaluateExpression_pair: "evaluateExpression e x vs = (fst (evaluateExpression e x vs), [x])"
  by (metis prod.collapse snd_evaluateExpression)

lemma evaluateMatchConditions_all_true:
  "\<forall>c \<in> set cs. fst (evaluateExpression e (mcExpression c) vs) = Inr (GBool True) \<Longrightarrow>
   evaluateMatchConditions e cs vs = (Inr True, map mcExpression cs)"
proof (induction cs)
  case Nil
  then show ?case by simp
next
  case (Cons c cs)
  then have "evaluateExpression e (mcExpression c) vs = (Inr (GBool True), [mcExpression c])"
    using evaluateExpression_pair[of e "mcExpression c" vs] by simp
  with Cons show ?case by (simp add: after_def)
qed

lemma evaluateMatchConditions_first_false:
  assumes "\<forall>c \<in> set pre. fst (evaluateExpression e (mcExpression c) vs) = Inr (GBool True)"
    and "fst (evaluateExpression e (mcExpression c) vs) = Inr (GBool False)"
  shows "evaluateMatchConditions e (pre @ c # post) vs = (Inr False, map mcExpression (pre @ [c]))"
using assms proof (induction pre)
  case Nil
  then have "evaluateExpression e (mcExpression c) vs = (Inr (GBool False), [mcExpression c])"
    using evaluateExpression_pair[of e "mcExpression c" vs] by simp
  then show ?case by simp
next
  case (Cons p pre)
  then have "evaluateExpression e (mcExpression p) vs = (Inr (GBool True), [mcExpression p])"
    using evaluateExpression_pair[of e "mcExpression p" vs] by simp
  with Cons show ?case by (simp add: after_def)
qed

lemma validationsLoop_first_false:
  assumes "\<forall>v \<in> set pre. fst (evaluateExpression e (vExpression v) vs) = Inr (GBool True)"
    and "fst (evaluateExpression e (vExpression validation) vs) = Inr (GBool False)"
  shows "validationsLoop e (pre @ validation # post) binding aa vs =
         after (map vExpression (pre @ [validation])) (handleValidationFailure e validation binding aa vs)"
using assms proof (induction pre)
  case Nil
  then have "evaluateExpression e (vExpression validation) vs = (Inr (GBool False), [vExpression validation])"
    using evaluateExpression_pair[of e "vExpression validation" vs] by simp
  then show ?case by simp
next
  case (Cons p pre)
  then have "evaluateExpression e (vExpression p) vs = (Inr (GBool True), [vExpression p])"
    using evaluateExpression_pair[of e "vExpression p" vs] by simp
  with Cons show ?case by (simp add: after_def)
qed

lemma handleValidationFailure_no_expression:
  "vMessageExpression v = '''' \<Longrightarrow>
   handleValidationFailure e v binding aa vs =
     (let message = (if vMessage v = '''' then ''validation failed: '' @ vExpression v else vMessage v);
          action = getValidationAction binding
      in if action = Warn then
           (Inr \<lparr>Allowed = True, Message = '''', Warnings = [message], PatchedObject = None,
                 AuditAnnotations = aa\<rparr>, [])
         else if action = Audit then
           (Inr \<lparr>Allowed = True, Message = '''', Warnings = [], PatchedObject = None,
                 AuditAnnotations = aa\<rparr>, [])
         else
           (Inr \<lparr>Allowed = False, Message = message, Warnings = [], PatchedObject = None,
                 AuditAnnotations = aa\<rparr>, []))"
  by (simp add: handleValidationFailure_def Let_def)

lemma handleValidationFailure_expression:
  assumes "vMessageExpression v \<noteq> ''''"
    and "fst (evaluateExpression e (vMessageExpression v) vs) = Inr msgResult"
  shows "handleValidationFailure e v binding aa vs =
     (let message = (case nonBlankString e msgResult of Some s \<Rightarrow> s | None \<Rightarrow> vMessage v);
          message = (if message = '''' then ''validation failed: '' @ vExpression v else message);
          action = getValidationAction binding
      in if action = Warn then
           (Inr \<lparr>Allowed = True, Message = '''', Warnings = [message], PatchedObject = None,
                 AuditAnnotations = aa\<rparr>, [vMessageExpression v])
         else if action = Audit then
           (Inr \<lparr>Allowed = True, Message = '''', Warnings = [], PatchedObject = None,
                 AuditAnnotations = aa\<rparr>, [vMessageExpression v])
         else
           (Inr \<lparr>Allowed = False, Message = message, Warnings = [], PatchedObject = None,
                 AuditAnnotations = aa\<rparr>, [vMessageExpression v]))"
proof -
  have "evaluateExpression e (vMessageExpression v) vs = (Inr msgResult, [vMessageExpression v])"
    using evaluateExpression_pair[of e "vMessageExpression v" vs] assms by simp
  then show ?thesis using assms(1)
    by (cases msgResult) (simp_all add: handleValidationFailure_def Let_def nonBlankString_def)
qed

lemma getValidationAction_first:
  "getValidationAction binding = (case firstValidationAction binding of None \<Rightarrow> '''' | Some a \<Rightarrow> a)"
  by (simp add: getValidationAction_def firstValidationAction_def split: option.splits list.splits)

lemma EvaluateValidating_reaches_validations:
  assumes "matchesNamespaceSelector e binding namespaceObj = Inr True"
    and "convertAdmissionRequest e request = Inr requestMap"
    and "vs = setupValidatingVars requestMap object oldObject params namespaceObj authorizer userInfo"
    and "evaluateMatchConditions e (vapMatchConditions policy) vs = (Inr True, t1)"
    and "evaluateAuditAnnotations e (vapAuditAnnotations policy) vs = (Inr aa, t2)"
  shows "EvaluateValidating e policy binding request object oldObject params namespaceObj
           authorizer userInfo =
         after (t1 @ t2) (validationsLoop e (vapValidations policy) binding aa vs)"
  using assms by (simp add: EvaluateValidating_def after_def Let_def)

section \<open>Failure routing\<close>

lemma handleValidationFailure_expression_error:
  assumes "vMessageExpression v \<noteq> ''''"
    and "fst (evaluateExpression e (vMessageExpression v) vs) = Inl err"
  shows "handleValidationFailure e v binding aa vs =
     (Inl (wrapQ ''evaluate messageExpression'' (vMessageExpression v) err),
      [vMessageExpression v])"
proof -
  have "evaluateExpression e (vMessageExpression v) vs = (Inl err, [vMessageExpression v])"
    using evaluateExpression_pair[of e "vMessageExpression v" vs] assms by simp
  then show ?thesis using assms(1)
    by (simp add: handleValidationFailure_def Let_def)
qed

text \<open>
  C1, as the code has it. The validation of the policy evaluates to false and has a
  message expression that does not compile. The claim has its static message used, and
  the request allowed under \<^verbatim>\<open>Audit\<close>; \<^verbatim>\<open>handleValidationFailure\<close> returns the error of
  the message expression instead, under every action, and there is no result.
\<close>

theorem validation_failure_message_expression_error:
  "fst (evaluateExpression (exampleEvaluator exampleTable) ''false''
          (setupValidatingVars [] (Some examplePod) None None None None None))
     = Inr (GBool False)
   \<and> fst (EvaluateValidating (exampleEvaluator exampleTable)
            (examplePolicy\<lparr>vapValidations :=
               [\<lparr>vExpression = ''false'', vMessage = ''static'',
                 vMessageExpression = ''invalid(''\<rparr>]\<rparr>)
            (Some \<lparr>vbValidationActions = [Audit], vbMatchResources = None\<rparr>)
            None (Some examplePod) None None None None None)
     = Inl (ErrWrapQ ''evaluate messageExpression'' ''invalid(''
              (ErrWrap ''compile expression'' (ErrLib ''undeclared reference'')))"
  by (simp add: examplePolicy_def matchesNamespaceSelector_def convertAdmissionRequest_def
      exampleEvaluator_def exampleTable_def evaluateExpression_def evaluateExpressionRaw_def
      evaluateAuditAnnotations_def EvaluateValidating_def handleValidationFailure_def
      after_def wrapQ_def)

text \<open>
  C1, amended. When the gates pass, the audit annotations are computed, the validations
  before \<open>validation\<close> evaluate to true and \<open>validation\<close> evaluates to false: if
  \<open>validation\<close> has a message expression and its evaluation fails, the evaluation returns
  that error, \<^verbatim>\<open>evaluate messageExpression\<close> with the expression quoted, whatever the
  action, and no result. Otherwise the result is decided by the first validation action
  of the binding. The message is the value of the message expression when there is one
  and it yields a non-blank string, else the static message, else "validation failed: "
  and the expression. Warn allows with the message as the only warning, Audit allows and
  shows no message, Deny and a binding that is absent or has no actions deny with the
  message; all three carry the audit annotations.
\<close>

theorem validation_failure_routing:
  assumes gate: "matchesNamespaceSelector e binding namespaceObj = Inr True"
    and req: "convertAdmissionRequest e request = Inr requestMap"
    and vs: "vs = setupValidatingVars requestMap object oldObject params namespaceObj
                    authorizer userInfo"
    and mc: "fst (evaluateMatchConditions e (vapMatchConditions policy) vs) = Inr True"
    and aa: "fst (evaluateAuditAnnotations e (vapAuditAnnotations policy) vs) = Inr auditAnnotations"
    and vals: "vapValidations policy = pre @ validation # post"
    and pre: "\<forall>v \<in> set pre. fst (evaluateExpression e (vExpression v) vs) = Inr (GBool True)"
    and failing: "fst (evaluateExpression e (vExpression validation) vs) = Inr (GBool False)"
    and trim: "TrimSpace e '''' = ''''"
    and result: "result = fst (EvaluateValidating e policy binding request object oldObject params
                                 namespaceObj authorizer userInfo)"
  shows "(\<forall>err. vMessageExpression validation \<noteq> ''''
              \<and> fst (evaluateExpression e (vMessageExpression validation) vs) = Inl err \<longrightarrow>
            result = Inl (wrapQ ''evaluate messageExpression'' (vMessageExpression validation) err))
       \<and> (\<forall>msgResult message.
            (vMessageExpression validation \<noteq> '''' \<longrightarrow>
               fst (evaluateExpression e (vMessageExpression validation) vs) = Inr msgResult)
            \<and> message =
               (case (if vMessageExpression validation \<noteq> '''' then nonBlankString e msgResult
                      else None) of
                  Some s \<Rightarrow> s
                | None \<Rightarrow> (if vMessage validation \<noteq> '''' then vMessage validation
                           else ''validation failed: '' @ vExpression validation)) \<longrightarrow>
            (firstValidationAction binding = Some Warn \<longrightarrow>
               result = Inr \<lparr>Allowed = True, Message = '''', Warnings = [message],
                             PatchedObject = None, AuditAnnotations = auditAnnotations\<rparr>)
          \<and> (firstValidationAction binding = Some Audit \<longrightarrow>
               result = Inr \<lparr>Allowed = True, Message = '''', Warnings = [],
                             PatchedObject = None, AuditAnnotations = auditAnnotations\<rparr>)
          \<and> (firstValidationAction binding = Some Deny \<or> firstValidationAction binding = None \<longrightarrow>
               result = Inr \<lparr>Allowed = False, Message = message, Warnings = [],
                             PatchedObject = None, AuditAnnotations = auditAnnotations\<rparr>))"
proof -
  obtain t1 where t1: "evaluateMatchConditions e (vapMatchConditions policy) vs = (Inr True, t1)"
    using mc by (metis prod.collapse)
  obtain t2 where t2: "evaluateAuditAnnotations e (vapAuditAnnotations policy) vs = (Inr auditAnnotations, t2)"
    using aa by (metis prod.collapse)
  have r: "result = fst (handleValidationFailure e validation binding auditAnnotations vs)"
    unfolding result EvaluateValidating_reaches_validations[OF gate req vs t1 t2] vals
      validationsLoop_first_false[OF pre failing]
    by simp
  have act: "Deny \<noteq> Warn" "Deny \<noteq> Audit" "'''' \<noteq> Warn" "'''' \<noteq> Audit" "Audit \<noteq> Warn"
    by (simp_all add: Deny_def Warn_def Audit_def)
  have fails: "result = Inl (wrapQ ''evaluate messageExpression'' (vMessageExpression validation) err)"
    if "vMessageExpression validation \<noteq> ''''"
      and "fst (evaluateExpression e (vMessageExpression validation) vs) = Inl err" for err
    unfolding r handleValidationFailure_expression_error[OF that] by simp
  have routed: "(firstValidationAction binding = Some Warn \<longrightarrow>
               result = Inr \<lparr>Allowed = True, Message = '''', Warnings = [message],
                             PatchedObject = None, AuditAnnotations = auditAnnotations\<rparr>)
          \<and> (firstValidationAction binding = Some Audit \<longrightarrow>
               result = Inr \<lparr>Allowed = True, Message = '''', Warnings = [],
                             PatchedObject = None, AuditAnnotations = auditAnnotations\<rparr>)
          \<and> (firstValidationAction binding = Some Deny \<or> firstValidationAction binding = None \<longrightarrow>
               result = Inr \<lparr>Allowed = False, Message = message, Warnings = [],
                             PatchedObject = None, AuditAnnotations = auditAnnotations\<rparr>)"
    if msgexp: "vMessageExpression validation \<noteq> '''' \<longrightarrow>
               fst (evaluateExpression e (vMessageExpression validation) vs) = Inr msgResult"
      and message: "message =
               (case (if vMessageExpression validation \<noteq> '''' then nonBlankString e msgResult
                      else None) of
                  Some s \<Rightarrow> s
                | None \<Rightarrow> (if vMessage validation \<noteq> '''' then vMessage validation
                           else ''validation failed: '' @ vExpression validation))"
    for msgResult message
  proof -
    have nb: "nonBlankString e msgResult = Some s \<Longrightarrow> s \<noteq> ''''" for s
      using trim by (auto simp: nonBlankString_def split: goval.splits if_splits)
    show ?thesis
    proof (cases "vMessageExpression validation = ''''")
      case True
      show ?thesis
        unfolding r handleValidationFailure_no_expression[OF True] message getValidationAction_first
        using True act by (auto simp: Let_def)
    next
      case False
      with msgexp have ev: "fst (evaluateExpression e (vMessageExpression validation) vs) = Inr msgResult"
        by simp
      show ?thesis
        unfolding r handleValidationFailure_expression[OF False ev] message getValidationAction_first
        using False act nb by (auto simp: Let_def split: option.splits)
    qed
  qed
  show ?thesis
    using fails routed by blast
qed

theorem validation_failure_routing_witness:
  "fst (EvaluateValidating (exampleEvaluator exampleTable) examplePolicy
          (Some \<lparr>vbValidationActions = [Warn, Deny], vbMatchResources = None\<rparr>)
          None (Some examplePod) None None None None None)
   = Inr \<lparr>Allowed = True, Message = '''', Warnings = [''Pod''], PatchedObject = None,
          AuditAnnotations = [(''kind'', ''Pod'')]\<rparr>
   \<and> fst (EvaluateValidating (exampleEvaluator exampleTable) examplePolicy
          (Some \<lparr>vbValidationActions = [Audit], vbMatchResources = None\<rparr>)
          None (Some examplePod) None None None None None)
   = Inr \<lparr>Allowed = True, Message = '''', Warnings = [], PatchedObject = None,
          AuditAnnotations = [(''kind'', ''Pod'')]\<rparr>
   \<and> fst (EvaluateValidating (exampleEvaluator exampleTable) examplePolicy
          (Some \<lparr>vbValidationActions = [Deny], vbMatchResources = None\<rparr>)
          None (Some examplePod) None None None None None)
   = Inr \<lparr>Allowed = False, Message = ''Pod'', Warnings = [], PatchedObject = None,
          AuditAnnotations = [(''kind'', ''Pod'')]\<rparr>
   \<and> fst (EvaluateValidating (exampleEvaluator exampleTable) examplePolicy
          None None (Some examplePod) None None None None None)
   = Inr \<lparr>Allowed = False, Message = ''Pod'', Warnings = [], PatchedObject = None,
          AuditAnnotations = [(''kind'', ''Pod'')]\<rparr>
   \<and> fst (EvaluateValidating (exampleEvaluator exampleTable)
          (examplePolicy\<lparr>vapValidations :=
             [\<lparr>vExpression = ''false'', vMessage = ''static'',
               vMessageExpression = ''invalid(''\<rparr>]\<rparr>)
          (Some \<lparr>vbValidationActions = [Warn], vbMatchResources = None\<rparr>)
          None (Some examplePod) None None None None None)
   = Inl (ErrWrapQ ''evaluate messageExpression'' ''invalid(''
            (ErrWrap ''compile expression'' (ErrLib ''undeclared reference'')))"
proof -
  let ?e = "exampleEvaluator exampleTable"
  let ?v = "\<lparr>vExpression = ''false'', vMessage = ''warn me'', vMessageExpression = ''object.kind''\<rparr>"
  let ?pre = "[\<lparr>vExpression = ''true'', vMessage = ''first'', vMessageExpression = ''''\<rparr>]"
  let ?post = "[\<lparr>vExpression = ''invalid('', vMessage = '''', vMessageExpression = ''''\<rparr>]"
  let ?vs = "setupValidatingVars [] (Some examplePod) None None None None None"
  let ?broken = "\<lparr>vExpression = ''false'', vMessage = ''static'', vMessageExpression = ''invalid(''\<rparr>"
  note defs = convertAdmissionRequest_def examplePolicy_def exampleEvaluator_def
      exampleTable_def evaluateExpression_def evaluateExpressionRaw_def
      evaluateAuditAnnotations_def after_def nonBlankString_def
  have reached: "matchesNamespaceSelector ?e b None = Inr True"
    if "b = None \<or> (\<exists>a. b = Some \<lparr>vbValidationActions = a, vbMatchResources = None\<rparr>)"
    for b :: "(string \<times> string) list ValidatingAdmissionPolicyBinding option"
    using that by (auto simp: matchesNamespaceSelector_def)
  have w: "(firstValidationAction b = Some Warn \<longrightarrow>
            fst (EvaluateValidating ?e examplePolicy b None (Some examplePod) None None None None None)
            = Inr \<lparr>Allowed = True, Message = '''', Warnings = [''Pod''],
                          PatchedObject = None, AuditAnnotations = [(''kind'', ''Pod'')]\<rparr>)
       \<and> (firstValidationAction b = Some Audit \<longrightarrow>
            fst (EvaluateValidating ?e examplePolicy b None (Some examplePod) None None None None None)
            = Inr \<lparr>Allowed = True, Message = '''', Warnings = [],
                          PatchedObject = None, AuditAnnotations = [(''kind'', ''Pod'')]\<rparr>)
       \<and> (firstValidationAction b = Some Deny \<or> firstValidationAction b = None \<longrightarrow>
            fst (EvaluateValidating ?e examplePolicy b None (Some examplePod) None None None None None)
            = Inr \<lparr>Allowed = False, Message = ''Pod'', Warnings = [],
                          PatchedObject = None, AuditAnnotations = [(''kind'', ''Pod'')]\<rparr>)"
    if b: "b = None \<or> (\<exists>a. b = Some \<lparr>vbValidationActions = a, vbMatchResources = None\<rparr>)"
    for b :: "(string \<times> string) list ValidatingAdmissionPolicyBinding option"
  proof -
    have "\<forall>msgResult message.
            (vMessageExpression ?v \<noteq> '''' \<longrightarrow>
               fst (evaluateExpression ?e (vMessageExpression ?v) ?vs) = Inr msgResult)
            \<and> message =
               (case (if vMessageExpression ?v \<noteq> '''' then nonBlankString ?e msgResult
                      else None) of
                  Some s \<Rightarrow> s
                | None \<Rightarrow> (if vMessage ?v \<noteq> '''' then vMessage ?v
                           else ''validation failed: '' @ vExpression ?v)) \<longrightarrow>
            (firstValidationAction b = Some Warn \<longrightarrow>
               fst (EvaluateValidating ?e examplePolicy b None (Some examplePod) None None None
                      None None)
               = Inr \<lparr>Allowed = True, Message = '''', Warnings = [message],
                             PatchedObject = None, AuditAnnotations = [(''kind'', ''Pod'')]\<rparr>)
          \<and> (firstValidationAction b = Some Audit \<longrightarrow>
               fst (EvaluateValidating ?e examplePolicy b None (Some examplePod) None None None
                      None None)
               = Inr \<lparr>Allowed = True, Message = '''', Warnings = [],
                             PatchedObject = None, AuditAnnotations = [(''kind'', ''Pod'')]\<rparr>)
          \<and> (firstValidationAction b = Some Deny \<or> firstValidationAction b = None \<longrightarrow>
               fst (EvaluateValidating ?e examplePolicy b None (Some examplePod) None None None
                      None None)
               = Inr \<lparr>Allowed = False, Message = message, Warnings = [],
                             PatchedObject = None, AuditAnnotations = [(''kind'', ''Pod'')]\<rparr>)"
    proof (rule validation_failure_routing[where e = ?e and policy = examplePolicy
            and binding = b and request = None and requestMap = "[]"
            and object = "Some examplePod" and oldObject = None and params = None
            and namespaceObj = None and authorizer = None and userInfo = None
            and pre = ?pre and validation = ?v and post = ?post and vs = ?vs
            and auditAnnotations = "[(''kind'', ''Pod'')]", THEN conjunct2])
      show "matchesNamespaceSelector ?e b None = Inr True"
        by (rule reached[OF b])
    qed (simp_all add: defs)
    from this[rule_format, of "GString ''Pod''" "''Pod''"] show ?thesis
      by (simp add: defs)
  qed
  have broken: "fst (EvaluateValidating ?e (examplePolicy\<lparr>vapValidations := [?broken]\<rparr>)
          (Some \<lparr>vbValidationActions = [Warn], vbMatchResources = None\<rparr>)
          None (Some examplePod) None None None None None)
     = Inl (wrapQ ''evaluate messageExpression'' ''invalid(''
              (ErrWrap ''compile expression'' (ErrLib ''undeclared reference'')))"
  proof -
    have "\<forall>err. vMessageExpression ?broken \<noteq> ''''
              \<and> fst (evaluateExpression ?e (vMessageExpression ?broken) ?vs) = Inl err \<longrightarrow>
            fst (EvaluateValidating ?e (examplePolicy\<lparr>vapValidations := [?broken]\<rparr>)
                   (Some \<lparr>vbValidationActions = [Warn], vbMatchResources = None\<rparr>)
                   None (Some examplePod) None None None None None)
            = Inl (wrapQ ''evaluate messageExpression'' (vMessageExpression ?broken) err)"
      by (rule validation_failure_routing[where e = ?e
            and policy = "examplePolicy\<lparr>vapValidations := [?broken]\<rparr>"
            and binding = "Some \<lparr>vbValidationActions = [Warn], vbMatchResources = None\<rparr>"
            and request = None and requestMap = "[]"
            and object = "Some examplePod" and oldObject = None and params = None
            and namespaceObj = None and authorizer = None and userInfo = None
            and pre = "[]" and validation = ?broken and post = "[]" and vs = ?vs
            and auditAnnotations = "[(''kind'', ''Pod'')]", THEN conjunct1])
         (simp_all add: matchesNamespaceSelector_def defs)
    from this[rule_format,
        of "ErrWrap ''compile expression'' (ErrLib ''undeclared reference'')"]
    show ?thesis by (simp add: defs)
  qed
  show ?thesis
    using w[of "Some \<lparr>vbValidationActions = [Warn, Deny], vbMatchResources = None\<rparr>"]
      w[of "Some \<lparr>vbValidationActions = [Audit], vbMatchResources = None\<rparr>"]
      w[of "Some \<lparr>vbValidationActions = [Deny], vbMatchResources = None\<rparr>"]
      w[of None] broken
    by (simp add: firstValidationAction_def wrapQ_def)
qed

section \<open>The mock authorizer: lookups\<close>

text \<open>
  C9. The claim: a check is answered with a recorded decision exactly when its tuple is
  the tuple of a configured record. The key is the five fields joined by \<open>/\<close> with no
  escaping, so two different tuples can share a key: with the single record
  (group \<open>a\<close>, resource \<open>b/c\<close>, verb \<open>get\<close>, allow), the check
  (group \<open>a/b\<close>, resource \<open>c\<close>, verb \<open>get\<close>) has a tuple no record has, and is
  answered Allow with reason "mock decision" instead of NoOpinion.
\<close>

theorem Authorize_key_collision:
  "Authorize
     (NewMockAuthorizerFromConfig
        [\<lparr>Group = ''a'', Resource = ''b/c'', Subresource = '''', Namespace = '''',
          Verb = ''get'', Decision = ''allow''\<rparr>])
     \<lparr>APIGroup = ''a/b'', AResource = ''c'', ASubresource = '''', ANamespace = '''',
      AVerb = ''get''\<rparr>
   = (DecisionAllow, ''mock decision'')
   \<and> checkTuple \<lparr>APIGroup = ''a/b'', AResource = ''c'', ASubresource = '''',
        ANamespace = '''', AVerb = ''get''\<rparr>
     \<notin> configTuple ` set
        [\<lparr>Group = ''a'', Resource = ''b/c'', Subresource = '''', Namespace = '''',
          Verb = ''get'', Decision = ''allow''\<rparr>]"
  by (simp add: Authorize_def NewMockAuthorizerFromConfig_def NewMockAuthorizer_def Add_def
      decisionKey_def checkTuple_def configTuple_def)

section \<open>The match-condition gate\<close>

lemma EvaluateValidating_gate_closed:
  assumes "matchesNamespaceSelector e binding namespaceObj = Inr True"
    and "convertAdmissionRequest e request = Inr requestMap"
    and "vs = setupValidatingVars requestMap object oldObject params namespaceObj authorizer userInfo"
    and "evaluateMatchConditions e (vapMatchConditions policy) vs = (Inr False, t)"
  shows "EvaluateValidating e policy binding request object oldObject params namespaceObj
           authorizer userInfo = (Inr allowedResult, t)"
  using assms by (simp add: EvaluateValidating_def Let_def)

lemma EvaluateMutating_gate_closed:
  assumes "matchesNamespaceSelectorV1Beta1 e binding namespaceObj = Inr True"
    and "convertAdmissionRequest e request = Inr requestMap"
    and "getPrimaryObject object oldObject = Some primaryObject"
    and "vs = prepareMutatingVars requestMap primaryObject oldObject params namespaceObj authorizer userInfo"
    and "evaluateMatchConditions e (mapMatchConditions policy) vs = (Inr False, t)"
  shows "EvaluateMutating e policy binding request object oldObject params namespaceObj
           authorizer userInfo = (Inr allowedResult, t)"
  using assms by (simp add: EvaluateMutating_def Let_def evaluateMatchConditionsV1Beta1_def)

text \<open>
  C2. When the match conditions before \<open>c\<close> evaluate to true and \<open>c\<close> evaluates to
  false, a validating and a mutating evaluation both return the result that only says
  allowed, with no patched object, and the expressions handed to the CEL environment are
  those of the match conditions up to \<open>c\<close> and no other: no later match condition, audit
  annotation, validation or mutation is evaluated, whatever it is.
\<close>

theorem match_condition_gate:
  assumes conditions: "conditions = pre @ c # post"
  shows "(matchesNamespaceSelector e vbinding namespaceObj = Inr True
          \<and> convertAdmissionRequest e request = Inr requestMap
          \<and> vs = setupValidatingVars requestMap object oldObject params namespaceObj
                   authorizer userInfo
          \<and> vapMatchConditions vpolicy = conditions
          \<and> (\<forall>p \<in> set pre. fst (evaluateExpression e (mcExpression p) vs) = Inr (GBool True))
          \<and> fst (evaluateExpression e (mcExpression c) vs) = Inr (GBool False)
          \<longrightarrow> EvaluateValidating e vpolicy vbinding request object oldObject params namespaceObj
                authorizer userInfo
              = (Inr \<lparr>Allowed = True, Message = '''', Warnings = [], PatchedObject = None,
                      AuditAnnotations = []\<rparr>,
                 map mcExpression (pre @ [c])))
       \<and> (matchesNamespaceSelectorV1Beta1 e mbinding namespaceObj = Inr True
          \<and> convertAdmissionRequest e request = Inr requestMap
          \<and> getPrimaryObject object oldObject = Some primaryObject
          \<and> ms = prepareMutatingVars requestMap primaryObject oldObject params namespaceObj
                   authorizer userInfo
          \<and> mapMatchConditions mpolicy = conditions
          \<and> (\<forall>p \<in> set pre. fst (evaluateExpression e (mcExpression p) ms) = Inr (GBool True))
          \<and> fst (evaluateExpression e (mcExpression c) ms) = Inr (GBool False)
          \<longrightarrow> EvaluateMutating e mpolicy mbinding request object oldObject params namespaceObj
                authorizer userInfo
              = (Inr \<lparr>Allowed = True, Message = '''', Warnings = [], PatchedObject = None,
                      AuditAnnotations = []\<rparr>,
                 map mcExpression (pre @ [c])))"
proof (intro conjI impI)
  assume h: "matchesNamespaceSelector e vbinding namespaceObj = Inr True
          \<and> convertAdmissionRequest e request = Inr requestMap
          \<and> vs = setupValidatingVars requestMap object oldObject params namespaceObj
                   authorizer userInfo
          \<and> vapMatchConditions vpolicy = conditions
          \<and> (\<forall>p \<in> set pre. fst (evaluateExpression e (mcExpression p) vs) = Inr (GBool True))
          \<and> fst (evaluateExpression e (mcExpression c) vs) = Inr (GBool False)"
  then have "evaluateMatchConditions e (vapMatchConditions vpolicy) vs
             = (Inr False, map mcExpression (pre @ [c]))"
    using evaluateMatchConditions_first_false[of pre e vs c post] conditions by metis
  with h show "EvaluateValidating e vpolicy vbinding request object oldObject params namespaceObj
                authorizer userInfo
              = (Inr \<lparr>Allowed = True, Message = '''', Warnings = [], PatchedObject = None,
                      AuditAnnotations = []\<rparr>,
                 map mcExpression (pre @ [c]))"
    using EvaluateValidating_gate_closed[of e vbinding namespaceObj request requestMap vs object
        oldObject params authorizer userInfo vpolicy]
    by (simp add: allowedResult_def)
next
  assume h: "matchesNamespaceSelectorV1Beta1 e mbinding namespaceObj = Inr True
          \<and> convertAdmissionRequest e request = Inr requestMap
          \<and> getPrimaryObject object oldObject = Some primaryObject
          \<and> ms = prepareMutatingVars requestMap primaryObject oldObject params namespaceObj
                   authorizer userInfo
          \<and> mapMatchConditions mpolicy = conditions
          \<and> (\<forall>p \<in> set pre. fst (evaluateExpression e (mcExpression p) ms) = Inr (GBool True))
          \<and> fst (evaluateExpression e (mcExpression c) ms) = Inr (GBool False)"
  then have "evaluateMatchConditions e (mapMatchConditions mpolicy) ms
             = (Inr False, map mcExpression (pre @ [c]))"
    using evaluateMatchConditions_first_false[of pre e ms c post] conditions by metis
  with h show "EvaluateMutating e mpolicy mbinding request object oldObject params namespaceObj
                authorizer userInfo
              = (Inr \<lparr>Allowed = True, Message = '''', Warnings = [], PatchedObject = None,
                      AuditAnnotations = []\<rparr>,
                 map mcExpression (pre @ [c]))"
    using EvaluateMutating_gate_closed[of e mbinding namespaceObj request requestMap object
        oldObject primaryObject ms params authorizer userInfo mpolicy]
    by (simp add: allowedResult_def)
qed

theorem match_condition_gate_witness:
  "EvaluateValidating (exampleEvaluator exampleTable) exampleGatedPolicy None None
     (Some examplePod) None None None None None
   = (Inr \<lparr>Allowed = True, Message = '''', Warnings = [], PatchedObject = None,
           AuditAnnotations = []\<rparr>, [''true'', ''false''])
   \<and> EvaluateMutating (exampleEvaluator exampleTable) exampleGatedMutatingPolicy None None
     (Some examplePod) None None None None None
   = (Inr \<lparr>Allowed = True, Message = '''', Warnings = [], PatchedObject = None,
           AuditAnnotations = []\<rparr>, [''true'', ''false''])"
  using match_condition_gate[where e = "exampleEvaluator exampleTable"
      and conditions = "vapMatchConditions exampleGatedPolicy"
      and pre = "[\<lparr>mcName = ''always'', mcExpression = ''true''\<rparr>]"
      and c = "\<lparr>mcName = ''never'', mcExpression = ''false''\<rparr>"
      and post = "[\<lparr>mcName = ''broken'', mcExpression = ''invalid(''\<rparr>]"
      and vbinding = None and mbinding = None and namespaceObj = None and request = None
      and requestMap = "[]" and object = "Some examplePod" and oldObject = None
      and primaryObject = examplePod and params = None and authorizer = None and userInfo = None
      and vpolicy = exampleGatedPolicy and mpolicy = exampleGatedMutatingPolicy
      and vs = "setupValidatingVars [] (Some examplePod) None None None None None"
      and ms = "prepareMutatingVars [] examplePod None None None None None"]
  by (simp add: exampleGatedPolicy_def exampleGatedMutatingPolicy_def
      matchesNamespaceSelector_def matchesNamespaceSelectorV1Beta1_def
      convertAdmissionRequest_def getPrimaryObject_def exampleEvaluator_def exampleTable_def
      evaluateExpression_def evaluateExpressionRaw_def)

section \<open>Audit annotations\<close>

lemma auditAnnotationsLoop_step:
  assumes "fst (evaluateExpression e (aaValueExpression a) vs) = Inr v"
  shows "auditAnnotationsLoop e (a # anns) vs acc =
         after [aaValueExpression a]
           (auditAnnotationsLoop e anns vs
              (case recordedValue e vs a of Some s \<Rightarrow> AList.update (aaKey a) s acc | None \<Rightarrow> acc))"
proof -
  have "evaluateExpression e (aaValueExpression a) vs = (Inr v, [aaValueExpression a])"
    using evaluateExpression_pair[of e "aaValueExpression a" vs] assms by simp
  then show ?thesis
    using assms by (cases v) (simp_all add: recordedValue_def)
qed

lemma auditAnnotationsLoop_ok:
  assumes "\<forall>a \<in> set anns. \<exists>v. fst (evaluateExpression e (aaValueExpression a) vs) = Inr v"
  shows "\<exists>m. auditAnnotationsLoop e anns vs acc = (Inr m, map aaValueExpression anns)
           \<and> (\<forall>k. map_of m k =
                 (case filter (\<lambda>a. aaKey a = k \<and> recordedValue e vs a \<noteq> None) anns of
                    [] \<Rightarrow> map_of acc k
                  | a # as \<Rightarrow> recordedValue e vs (last (a # as))))"
using assms proof (induction anns arbitrary: acc)
  case Nil
  then show ?case by simp
next
  case (Cons a anns)
  let ?acc = "case recordedValue e vs a of Some s \<Rightarrow> AList.update (aaKey a) s acc | None \<Rightarrow> acc"
  from Cons.prems obtain v where v: "fst (evaluateExpression e (aaValueExpression a) vs) = Inr v"
    by auto
  from Cons.IH[of ?acc] Cons.prems obtain m where
    m: "auditAnnotationsLoop e anns vs ?acc = (Inr m, map aaValueExpression anns)"
    and mk: "\<And>k. map_of m k =
                 (case filter (\<lambda>a. aaKey a = k \<and> recordedValue e vs a \<noteq> None) anns of
                    [] \<Rightarrow> map_of ?acc k
                  | a # as \<Rightarrow> recordedValue e vs (last (a # as)))"
    by auto
  have "auditAnnotationsLoop e (a # anns) vs acc = (Inr m, map aaValueExpression (a # anns))"
    unfolding auditAnnotationsLoop_step[OF v] m by (simp add: after_def)
  moreover have "map_of m k =
                 (case filter (\<lambda>a. aaKey a = k \<and> recordedValue e vs a \<noteq> None) (a # anns) of
                    [] \<Rightarrow> map_of acc k
                  | a # as \<Rightarrow> recordedValue e vs (last (a # as)))" for k
    unfolding mk[of k]
    by (auto simp: update_conv' split: list.splits option.splits)
  ultimately show ?case by blast
qed

lemma handleValidationFailure_annotations:
  "fst (handleValidationFailure e v b aa vs) = Inr r \<Longrightarrow>
   AuditAnnotations r = aa \<and>
   fst (handleValidationFailure e v b aa' vs) = Inr (r\<lparr>AuditAnnotations := aa'\<rparr>)"
  by (auto simp: handleValidationFailure_def Let_def split: if_splits prod.splits sum.splits goval.splits)

lemma validationsLoop_annotations:
  "fst (validationsLoop e vals b aa vs) = Inr r \<Longrightarrow>
   AuditAnnotations r = aa \<and>
   fst (validationsLoop e vals b aa' vs) = Inr (r\<lparr>AuditAnnotations := aa'\<rparr>)"
proof (induction vals)
  case Nil
  then show ?case by auto
next
  case (Cons v vals)
  obtain x where x: "evaluateExpression e (vExpression v) vs = (x, [vExpression v])"
    using evaluateExpression_pair by blast
  show ?case
  proof (cases x)
    case (Inl err)
    with x Cons.prems show ?thesis by simp
  next
    case (Inr val)
    show ?thesis
    proof (cases val)
      case (GBool allowed)
      show ?thesis
      proof (cases allowed)
        case True
        with x Inr GBool Cons show ?thesis by simp
      next
        case False
        with x Inr GBool Cons.prems show ?thesis
          using handleValidationFailure_annotations[of e v b aa vs r aa'] by simp
      qed
    qed (use x Inr Cons.prems in simp_all)
  qed
qed

lemma evaluateMatchConditions_trace:
  "fst (evaluateMatchConditions e cs vs) = Inr True \<Longrightarrow>
   snd (evaluateMatchConditions e cs vs) = map mcExpression cs"
proof (induction cs)
  case Nil
  then show ?case by simp
next
  case (Cons c cs)
  obtain x where x: "evaluateExpression e (mcExpression c) vs = (x, [mcExpression c])"
    using evaluateExpression_pair by blast
  with Cons show ?case
    by (auto split: sum.splits goval.splits if_splits)
qed

lemma evaluateAuditAnnotations_ok:
  assumes "\<forall>a \<in> set anns. \<exists>v. fst (evaluateExpression e (aaValueExpression a) vs) = Inr v"
  shows "\<exists>m. evaluateAuditAnnotations e anns vs = (Inr m, map aaValueExpression anns)
           \<and> (\<forall>k. map_of m k =
                 (case filter (\<lambda>a. aaKey a = k \<and> recordedValue e vs a \<noteq> None) anns of
                    [] \<Rightarrow> None
                  | a # as \<Rightarrow> recordedValue e vs (last (a # as))))"
  using auditAnnotationsLoop_ok[OF assms, of "[]"] unfolding evaluateAuditAnnotations_def
  by (simp cong: list.case_cong)

lemma auditAnnotationsLoop_fails:
  assumes "\<forall>p \<in> set pre. \<exists>v. fst (evaluateExpression e (aaValueExpression p) vs) = Inr v"
    and "fst (evaluateExpression e (aaValueExpression a) vs) = Inl err"
  shows "auditAnnotationsLoop e (pre @ a # post) vs acc
         = (Inl (wrapQ ''evaluate audit annotation'' (aaKey a) err),
            map aaValueExpression (pre @ [a]))"
using assms proof (induction pre arbitrary: acc)
  case Nil
  then have "evaluateExpression e (aaValueExpression a) vs = (Inl err, [aaValueExpression a])"
    using evaluateExpression_pair[of e "aaValueExpression a" vs] by simp
  then show ?case by simp
next
  case (Cons p pre)
  from Cons.prems obtain v where v: "fst (evaluateExpression e (aaValueExpression p) vs) = Inr v"
    by auto
  have ih: "auditAnnotationsLoop e (pre @ a # post) vs acc'
         = (Inl (wrapQ ''evaluate audit annotation'' (aaKey a) err),
            map aaValueExpression (pre @ [a]))" for acc'
    using Cons by simp
  show ?case
    unfolding append_Cons auditAnnotationsLoop_step[OF v] ih
    by (simp add: after_def)
qed

text \<open>
  C5, as the code has it. The first annotation of the policy has an expression that does
  not compile: \<^verbatim>\<open>evaluateAuditAnnotations\<close> returns its error at once, the expression of
  the second annotation is not evaluated, and the evaluation returns the error and no
  result, where the claim has every expression evaluated.
\<close>

theorem audit_annotation_error_stops:
  "EvaluateValidating (exampleEvaluator exampleTable)
     (examplePolicy\<lparr>vapAuditAnnotations :=
        [\<lparr>aaKey = ''broken'', aaValueExpression = ''invalid(''\<rparr>,
         \<lparr>aaKey = ''kind'', aaValueExpression = ''object.kind''\<rparr>]\<rparr>)
     None None (Some examplePod) None None None None None
   = (Inl (ErrWrapQ ''evaluate audit annotation'' ''broken''
             (ErrWrap ''compile expression'' (ErrLib ''undeclared reference''))),
      [''true'', ''invalid(''])"
  by (simp add: examplePolicy_def matchesNamespaceSelector_def convertAdmissionRequest_def
      exampleEvaluator_def exampleTable_def evaluateExpression_def evaluateExpressionRaw_def
      evaluateAuditAnnotations_def EvaluateValidating_def after_def wrapQ_def)

text \<open>
  C5, amended. In a validating evaluation that reaches the audit-annotation step, the
  annotation expressions are handed to CEL one after the other in the order of the list,
  right after the match conditions, up to the first whose evaluation fails. When one
  fails, the evaluation returns its error, \<^verbatim>\<open>evaluate audit annotation\<close> with the key
  quoted, and no result: no later annotation expression and no validation is evaluated.
  When none fails, all are evaluated; under each key the map holds the value of the last
  annotation with that key whose value is a string with non-empty content, and nothing
  for a key with no such annotation (empty strings and other values are dropped); every
  result the evaluation returns, allowing or denying, carries this map; and replacing the
  annotations by any others that evaluate changes neither \<open>Allowed\<close> nor the message nor
  the warnings of the result.
\<close>

theorem audit_annotations_recorded:
  assumes gate: "matchesNamespaceSelector e binding namespaceObj = Inr True"
    and req: "convertAdmissionRequest e request = Inr requestMap"
    and vs: "vs = setupValidatingVars requestMap object oldObject params namespaceObj
                    authorizer userInfo"
    and mc: "fst (evaluateMatchConditions e (vapMatchConditions policy) vs) = Inr True"
  shows "(\<forall>pre a post err.
            vapAuditAnnotations policy = pre @ a # post
            \<and> (\<forall>p \<in> set pre. \<exists>v. fst (evaluateExpression e (aaValueExpression p) vs) = Inr v)
            \<and> fst (evaluateExpression e (aaValueExpression a) vs) = Inl err \<longrightarrow>
            EvaluateValidating e policy binding request object oldObject params namespaceObj
              authorizer userInfo
            = (Inl (wrapQ ''evaluate audit annotation'' (aaKey a) err),
               map mcExpression (vapMatchConditions policy)
               @ map aaValueExpression (pre @ [a])))
       \<and> ((\<forall>a \<in> set (vapAuditAnnotations policy).
              \<exists>v. fst (evaluateExpression e (aaValueExpression a) vs) = Inr v) \<longrightarrow>
          (\<exists>m. evaluateAuditAnnotations e (vapAuditAnnotations policy) vs
                = (Inr m, map aaValueExpression (vapAuditAnnotations policy))
           \<and> (\<forall>k. map_of m k =
                 (case filter (\<lambda>a. aaKey a = k \<and> recordedValue e vs a \<noteq> None)
                         (vapAuditAnnotations policy) of
                    [] \<Rightarrow> None
                  | a # as \<Rightarrow> recordedValue e vs (last (a # as))))
           \<and> (\<exists>rest. snd (EvaluateValidating e policy binding request object oldObject params
                               namespaceObj authorizer userInfo)
                  = map mcExpression (vapMatchConditions policy)
                    @ map aaValueExpression (vapAuditAnnotations policy) @ rest)
           \<and> (\<forall>r. fst (EvaluateValidating e policy binding request object oldObject params
                          namespaceObj authorizer userInfo) = Inr r
                 \<longrightarrow> AuditAnnotations r = m)
           \<and> (\<forall>annotations' r r'.
                 (\<forall>a \<in> set annotations'.
                    \<exists>v. fst (evaluateExpression e (aaValueExpression a) vs) = Inr v)
                 \<and> fst (EvaluateValidating e policy binding request object oldObject params
                          namespaceObj authorizer userInfo) = Inr r
                 \<and> fst (EvaluateValidating e (policy\<lparr>vapAuditAnnotations := annotations'\<rparr>)
                          binding request object oldObject params namespaceObj authorizer
                          userInfo) = Inr r'
                 \<longrightarrow> Allowed r' = Allowed r \<and> Message r' = Message r
                     \<and> Warnings r' = Warnings r)))"
    (is "?stops \<and> (?ok \<longrightarrow> ?recorded)")
proof -
  let ?t1 = "map mcExpression (vapMatchConditions policy)"
  have t1: "evaluateMatchConditions e (vapMatchConditions policy) vs = (Inr True, ?t1)"
    using mc evaluateMatchConditions_trace[OF mc] by (metis prod.collapse)
  have stops: ?stops
  proof (intro allI impI)
    fix pre a post err
    assume h: "vapAuditAnnotations policy = pre @ a # post
            \<and> (\<forall>p \<in> set pre. \<exists>v. fst (evaluateExpression e (aaValueExpression p) vs) = Inr v)
            \<and> fst (evaluateExpression e (aaValueExpression a) vs) = Inl err"
    then have "evaluateAuditAnnotations e (vapAuditAnnotations policy) vs
         = (Inl (wrapQ ''evaluate audit annotation'' (aaKey a) err),
            map aaValueExpression (pre @ [a]))"
      using auditAnnotationsLoop_fails[of pre e vs a err post "[]"]
      by (simp add: evaluateAuditAnnotations_def)
    then show "EvaluateValidating e policy binding request object oldObject params namespaceObj
              authorizer userInfo
            = (Inl (wrapQ ''evaluate audit annotation'' (aaKey a) err),
               map mcExpression (vapMatchConditions policy)
               @ map aaValueExpression (pre @ [a]))"
      using gate req vs t1 by (simp add: EvaluateValidating_def after_def Let_def)
  qed
  have recorded: ?recorded if ok: ?ok
  proof -
  from evaluateAuditAnnotations_ok[OF ok] obtain m where
    m: "evaluateAuditAnnotations e (vapAuditAnnotations policy) vs
          = (Inr m, map aaValueExpression (vapAuditAnnotations policy))"
    and mk: "\<forall>k. map_of m k =
                 (case filter (\<lambda>a. aaKey a = k \<and> recordedValue e vs a \<noteq> None)
                         (vapAuditAnnotations policy) of
                    [] \<Rightarrow> None
                  | a # as \<Rightarrow> recordedValue e vs (last (a # as)))"
    by blast
  note ev = EvaluateValidating_reaches_validations[OF gate req vs t1 m]
  have tr: "\<exists>rest. snd (EvaluateValidating e policy binding request object oldObject params
                               namespaceObj authorizer userInfo)
                  = map mcExpression (vapMatchConditions policy)
                    @ map aaValueExpression (vapAuditAnnotations policy) @ rest"
    unfolding ev by simp
  have carried: "AuditAnnotations r = m"
    if "fst (EvaluateValidating e policy binding request object oldObject params
                          namespaceObj authorizer userInfo) = Inr r" for r
    using that validationsLoop_annotations[of e "vapValidations policy" binding m vs r m]
    unfolding ev by simp
  have indep: "Allowed r' = Allowed r \<and> Message r' = Message r \<and> Warnings r' = Warnings r"
    if ok': "\<forall>a \<in> set annotations'.
                    \<exists>v. fst (evaluateExpression e (aaValueExpression a) vs) = Inr v"
      and r: "fst (EvaluateValidating e policy binding request object oldObject params
                          namespaceObj authorizer userInfo) = Inr r"
      and r': "fst (EvaluateValidating e (policy\<lparr>vapAuditAnnotations := annotations'\<rparr>)
                          binding request object oldObject params namespaceObj authorizer
                          userInfo) = Inr r'"
    for annotations' r r'
  proof -
    from evaluateAuditAnnotations_ok[OF ok'] obtain m' where
      m': "evaluateAuditAnnotations e annotations' vs = (Inr m', map aaValueExpression annotations')"
      by blast
    have ev': "EvaluateValidating e (policy\<lparr>vapAuditAnnotations := annotations'\<rparr>)
                 binding request object oldObject params namespaceObj authorizer userInfo
               = after (?t1 @ map aaValueExpression annotations')
                   (validationsLoop e (vapValidations policy) binding m' vs)"
      using EvaluateValidating_reaches_validations[of e binding namespaceObj request requestMap
          vs object oldObject params authorizer userInfo
          "policy\<lparr>vapAuditAnnotations := annotations'\<rparr>" ?t1 m'
          "map aaValueExpression annotations'"]
        gate req vs t1 m' by simp
    from r have "fst (validationsLoop e (vapValidations policy) binding m vs) = Inr r"
      unfolding ev by simp
    from validationsLoop_annotations[OF this, of m'] r'
    have "r' = r\<lparr>AuditAnnotations := m'\<rparr>"
      unfolding ev' by simp
    then show ?thesis by simp
  qed
  from m mk tr carried indep show ?thesis by blast
  qed
  show ?thesis
    using stops recorded by blast
qed

theorem audit_annotations_recorded_witness:
  "evaluateAuditAnnotations (exampleEvaluator exampleTable) (vapAuditAnnotations examplePolicy)
     (setupValidatingVars [] (Some examplePod) None None None None None)
   = (Inr [(''kind'', ''Pod'')], [''object.kind'', ''string()'', ''1''])
   \<and> EvaluateValidating (exampleEvaluator exampleTable) examplePolicy None None
       (Some examplePod) None None None None None
     = (Inr \<lparr>Allowed = False, Message = ''Pod'', Warnings = [], PatchedObject = None,
             AuditAnnotations = [(''kind'', ''Pod'')]\<rparr>,
        [''true'', ''object.kind'', ''string()'', ''1'', ''true'', ''false'', ''object.kind''])
   \<and> EvaluateValidating (exampleEvaluator exampleTable)
       (examplePolicy\<lparr>vapAuditAnnotations := []\<rparr>) None None
       (Some examplePod) None None None None None
     = (Inr \<lparr>Allowed = False, Message = ''Pod'', Warnings = [], PatchedObject = None,
             AuditAnnotations = []\<rparr>,
        [''true'', ''true'', ''false'', ''object.kind''])
   \<and> EvaluateValidating (exampleEvaluator exampleTable)
       (examplePolicy\<lparr>vapAuditAnnotations :=
          [\<lparr>aaKey = ''kind'', aaValueExpression = ''object.kind''\<rparr>,
           \<lparr>aaKey = ''broken'', aaValueExpression = ''invalid(''\<rparr>,
           \<lparr>aaKey = ''number'', aaValueExpression = ''1''\<rparr>]\<rparr>)
       None None (Some examplePod) None None None None None
     = (Inl (ErrWrapQ ''evaluate audit annotation'' ''broken''
               (ErrWrap ''compile expression'' (ErrLib ''undeclared reference''))),
        [''true'', ''object.kind'', ''invalid(''])"
proof -
  let ?e = "exampleEvaluator exampleTable"
  let ?vs = "setupValidatingVars [] (Some examplePod) None None None None None"
  let ?kind = "\<lparr>aaKey = ''kind'', aaValueExpression = ''object.kind''\<rparr>"
  let ?broken = "\<lparr>aaKey = ''broken'', aaValueExpression = ''invalid(''\<rparr>"
  let ?number = "\<lparr>aaKey = ''number'', aaValueExpression = ''1''\<rparr>"
  let ?policy = "examplePolicy\<lparr>vapAuditAnnotations := [?kind, ?broken, ?number]\<rparr>"
  note defs = examplePolicy_def matchesNamespaceSelector_def convertAdmissionRequest_def
      exampleEvaluator_def exampleTable_def evaluateExpression_def evaluateExpressionRaw_def
      after_def
  have stops: "EvaluateValidating ?e ?policy None None (Some examplePod) None None None None None
     = (Inl (ErrWrapQ ''evaluate audit annotation'' ''broken''
               (ErrWrap ''compile expression'' (ErrLib ''undeclared reference''))),
        [''true'', ''object.kind'', ''invalid(''])"
    using audit_annotations_recorded[where e = ?e and policy = ?policy and binding = None
        and namespaceObj = None and request = None and requestMap = "[]"
        and object = "Some examplePod" and oldObject = None and params = None
        and authorizer = None and userInfo = None and vs = ?vs,
        THEN conjunct1, rule_format, of "[?kind]" ?broken "[?number]"
          "ErrWrap ''compile expression'' (ErrLib ''undeclared reference'')"]
    by (simp add: defs wrapQ_def)
  have recorded: "evaluateAuditAnnotations ?e (vapAuditAnnotations examplePolicy) ?vs
       = (Inr [(''kind'', ''Pod'')], [''object.kind'', ''string()'', ''1''])
     \<and> EvaluateValidating ?e examplePolicy None None (Some examplePod) None None None None None
       = (Inr \<lparr>Allowed = False, Message = ''Pod'', Warnings = [], PatchedObject = None,
               AuditAnnotations = [(''kind'', ''Pod'')]\<rparr>,
          [''true'', ''object.kind'', ''string()'', ''1'', ''true'', ''false'', ''object.kind''])
     \<and> EvaluateValidating ?e (examplePolicy\<lparr>vapAuditAnnotations := []\<rparr>) None None
         (Some examplePod) None None None None None
       = (Inr \<lparr>Allowed = False, Message = ''Pod'', Warnings = [], PatchedObject = None,
               AuditAnnotations = []\<rparr>,
          [''true'', ''true'', ''false'', ''object.kind''])"
    using audit_annotations_recorded[where e = ?e and policy = examplePolicy and binding = None
        and namespaceObj = None and request = None and requestMap = "[]"
        and object = "Some examplePod" and oldObject = None and params = None
        and authorizer = None and userInfo = None and vs = ?vs, THEN conjunct2]
    by (simp add: defs evaluateAuditAnnotations_def EvaluateValidating_def
        handleValidationFailure_def getValidationAction_def Warn_def Audit_def)
  show ?thesis
    using stops recorded by simp
qed

section \<open>Request projection: the fields\<close>

lemma map_of_setIf:
  "map_of (setIf c k v r) k' = (if c \<and> k' = k then Some v else map_of r k')"
  by (simp add: setIf_def update_conv')

lemma keys_setIf: "fst ` set (setIf c k v r) \<subseteq> insert k (fst ` set r)"
  by (auto simp: setIf_def dom_update)

lemma keys_setIf_in: "x \<in> fst ` set (setIf c k v r) \<Longrightarrow> x = k \<or> x \<in> fst ` set r"
  using keys_setIf[of c k v r] by blast

lemma exampleRequest_projection:
  "convertAdmissionRequest (exampleEvaluator []) (Some exampleRequest)
   = Inr [(''name'', GString ''p''), (''namespace'', GString ''default''),
          (''operation'', GString ''CREATE''),
          (''kind'', GMap [(''group'', GString ''''), (''version'', GString ''v1''),
                           (''kind'', GString ''Pod'')]),
          (''resource'', GMap [(''group'', GString ''''), (''version'', GString ''v1''),
                               (''resource'', GString ''pods'')]),
          (''userInfo'', GMap [(''username'', GString ''admin'')]),
          (''options'', GMap []), (''dryRun'', GBool False)]"
  by (simp add: convertAdmissionRequest_def exampleRequest_def exampleEvaluator_def setIf_def)

lemma emptyRequest_projection:
  "convertAdmissionRequest (exampleEvaluator []) (Some emptyRequest) = Inr []"
  by (simp add: convertAdmissionRequest_def emptyRequest_def setIf_def)

text \<open>
  C6, as the code has it. The claim says that every empty scalar field is left out of the
  mapping; the code leaves out the empty top-level strings and the empty fields of
  \<open>userInfo\<close>, but \<open>kind\<close> and \<open>resource\<close> are added whole: the request for a Pod of the
  core group has \<open>kind.group\<close> in its mapping, with the empty string as its value.
\<close>

theorem convertAdmissionRequest_empty_group_present:
  "convertAdmissionRequest (exampleEvaluator []) (Some exampleRequest)
   = Inr [(''name'', GString ''p''), (''namespace'', GString ''default''),
          (''operation'', GString ''CREATE''),
          (''kind'', GMap [(''group'', GString ''''), (''version'', GString ''v1''),
                           (''kind'', GString ''Pod'')]),
          (''resource'', GMap [(''group'', GString ''''), (''version'', GString ''v1''),
                               (''resource'', GString ''pods'')]),
          (''userInfo'', GMap [(''username'', GString ''admin'')]),
          (''options'', GMap []), (''dryRun'', GBool False)]
   \<and> gvkGroup (reqKind exampleRequest) = ''''"
  using exampleRequest_projection by (simp add: exampleRequest_def)

text \<open>
  C6, amended. When the projection succeeds: \<open>uid\<close>, \<open>subResource\<close>, \<open>name\<close>,
  \<open>namespace\<close> and \<open>operation\<close> are present exactly when not empty, with the field's
  value; \<open>kind\<close> (and \<open>resource\<close>) is present when its kind (resource) name is set, and
  then holds group, version and name, empty or not, and is absent when all three are
  empty; \<open>userInfo\<close> is present when the user name or the groups are set, and then holds
  \<open>username\<close>, \<open>groups\<close>, \<open>uid\<close> and \<open>extra\<close>, each exactly when not empty, and is
  absent when all four are empty; \<open>options\<close> is present exactly when the raw bytes are,
  and holds what the JSON decoder, or else the YAML decoder, made of them; \<open>dryRun\<close> is
  present exactly when the pointer is set; and there is no other key.
\<close>

theorem convertAdmissionRequest_fields:
  assumes ok: "convertAdmissionRequest e (Some req) = Inr m"
  shows "map_of m ''uid'' = (if reqUID req = '''' then None else Some (GString (reqUID req)))
       \<and> map_of m ''subResource''
           = (if reqSubResource req = '''' then None else Some (GString (reqSubResource req)))
       \<and> map_of m ''name'' = (if reqName req = '''' then None else Some (GString (reqName req)))
       \<and> map_of m ''namespace''
           = (if reqNamespace req = '''' then None else Some (GString (reqNamespace req)))
       \<and> map_of m ''operation''
           = (if reqOperation req = '''' then None else Some (GString (reqOperation req)))
       \<and> (gvkKind (reqKind req) \<noteq> '''' \<longrightarrow>
            map_of m ''kind'' = Some (GMap [(''group'', GString (gvkGroup (reqKind req))),
                                            (''version'', GString (gvkVersion (reqKind req))),
                                            (''kind'', GString (gvkKind (reqKind req)))]))
       \<and> (gvkKind (reqKind req) = '''' \<and> gvkGroup (reqKind req) = ''''
            \<and> gvkVersion (reqKind req) = '''' \<longrightarrow> map_of m ''kind'' = None)
       \<and> (gvrResource (reqResource req) \<noteq> '''' \<longrightarrow>
            map_of m ''resource''
            = Some (GMap [(''group'', GString (gvrGroup (reqResource req))),
                          (''version'', GString (gvrVersion (reqResource req))),
                          (''resource'', GString (gvrResource (reqResource req)))]))
       \<and> (gvrResource (reqResource req) = '''' \<and> gvrGroup (reqResource req) = ''''
            \<and> gvrVersion (reqResource req) = '''' \<longrightarrow> map_of m ''resource'' = None)
       \<and> (Username (reqUserInfo req) \<noteq> '''' \<or> Groups (reqUserInfo req) \<noteq> [] \<longrightarrow>
            (\<exists>u. map_of m ''userInfo'' = Some (GMap u)
                 \<and> map_of u ''username''
                     = (if Username (reqUserInfo req) = '''' then None
                        else Some (GString (Username (reqUserInfo req))))
                 \<and> map_of u ''groups''
                     = (if Groups (reqUserInfo req) = [] then None
                        else Some (GStrings (Groups (reqUserInfo req))))
                 \<and> map_of u ''uid''
                     = (if UID (reqUserInfo req) = '''' then None
                        else Some (GString (UID (reqUserInfo req))))
                 \<and> map_of u ''extra''
                     = (if Extra (reqUserInfo req) = [] then None
                        else Some (GExtra (Extra (reqUserInfo req))))))
       \<and> (Username (reqUserInfo req) = '''' \<and> Groups (reqUserInfo req) = []
            \<and> UID (reqUserInfo req) = '''' \<and> Extra (reqUserInfo req) = [] \<longrightarrow>
            map_of m ''userInfo'' = None)
       \<and> (reqOptionsRaw req = None \<longrightarrow> map_of m ''options'' = None)
       \<and> (\<forall>raw. reqOptionsRaw req = Some raw \<longrightarrow>
            (\<exists>optionsMap. map_of m ''options'' = Some (GMap optionsMap)
                 \<and> (jsonUnmarshal e raw = Inr optionsMap
                      \<or> (\<exists>err. jsonUnmarshal e raw = Inl err)
                         \<and> yamlUnmarshal e raw = Inr optionsMap)))
       \<and> map_of m ''dryRun'' = map_option GBool (reqDryRun req)
       \<and> fst ` set m \<subseteq> {''uid'', ''subResource'', ''name'', ''namespace'', ''operation'',
                           ''kind'', ''resource'', ''userInfo'', ''options'', ''dryRun''}"
proof -
  note defs = convertAdmissionRequest_def Let_def map_of_setIf update_conv'
  have uid: "map_of m ''uid'' = (if reqUID req = '''' then None else Some (GString (reqUID req)))"
    using ok by (auto simp: defs split: option.splits sum.splits)
  have sub: "map_of m ''subResource''
           = (if reqSubResource req = '''' then None else Some (GString (reqSubResource req)))"
    using ok by (auto simp: defs split: option.splits sum.splits)
  have name: "map_of m ''name'' = (if reqName req = '''' then None else Some (GString (reqName req)))"
    using ok by (auto simp: defs split: option.splits sum.splits)
  have ns: "map_of m ''namespace''
           = (if reqNamespace req = '''' then None else Some (GString (reqNamespace req)))"
    using ok by (auto simp: defs split: option.splits sum.splits)
  have op: "map_of m ''operation''
           = (if reqOperation req = '''' then None else Some (GString (reqOperation req)))"
    using ok by (auto simp: defs split: option.splits sum.splits)
  have kind1: "gvkKind (reqKind req) \<noteq> '''' \<longrightarrow>
            map_of m ''kind'' = Some (GMap [(''group'', GString (gvkGroup (reqKind req))),
                                            (''version'', GString (gvkVersion (reqKind req))),
                                            (''kind'', GString (gvkKind (reqKind req)))])"
    using ok by (auto simp: defs split: option.splits sum.splits)
  have kind2: "gvkKind (reqKind req) = '''' \<and> gvkGroup (reqKind req) = ''''
            \<and> gvkVersion (reqKind req) = '''' \<longrightarrow> map_of m ''kind'' = None"
    using ok by (auto simp: defs split: option.splits sum.splits)
  have res1: "gvrResource (reqResource req) \<noteq> '''' \<longrightarrow>
            map_of m ''resource''
            = Some (GMap [(''group'', GString (gvrGroup (reqResource req))),
                          (''version'', GString (gvrVersion (reqResource req))),
                          (''resource'', GString (gvrResource (reqResource req)))])"
    using ok by (auto simp: defs split: option.splits sum.splits)
  have res2: "gvrResource (reqResource req) = '''' \<and> gvrGroup (reqResource req) = ''''
            \<and> gvrVersion (reqResource req) = '''' \<longrightarrow> map_of m ''resource'' = None"
    using ok by (auto simp: defs split: option.splits sum.splits)
  have user1: "Username (reqUserInfo req) \<noteq> '''' \<or> Groups (reqUserInfo req) \<noteq> [] \<longrightarrow>
            (\<exists>u. map_of m ''userInfo'' = Some (GMap u)
                 \<and> map_of u ''username''
                     = (if Username (reqUserInfo req) = '''' then None
                        else Some (GString (Username (reqUserInfo req))))
                 \<and> map_of u ''groups''
                     = (if Groups (reqUserInfo req) = [] then None
                        else Some (GStrings (Groups (reqUserInfo req))))
                 \<and> map_of u ''uid''
                     = (if UID (reqUserInfo req) = '''' then None
                        else Some (GString (UID (reqUserInfo req))))
                 \<and> map_of u ''extra''
                     = (if Extra (reqUserInfo req) = [] then None
                        else Some (GExtra (Extra (reqUserInfo req)))))"
    using ok by (auto simp: defs split: option.splits sum.splits)
  have user2: "Username (reqUserInfo req) = '''' \<and> Groups (reqUserInfo req) = []
            \<and> UID (reqUserInfo req) = '''' \<and> Extra (reqUserInfo req) = [] \<longrightarrow>
            map_of m ''userInfo'' = None"
    using ok by (auto simp: defs split: option.splits sum.splits)
  have opt1: "reqOptionsRaw req = None \<longrightarrow> map_of m ''options'' = None"
    using ok by (auto simp: defs split: option.splits sum.splits)
  have opt2: "\<forall>raw. reqOptionsRaw req = Some raw \<longrightarrow>
            (\<exists>optionsMap. map_of m ''options'' = Some (GMap optionsMap)
                 \<and> (jsonUnmarshal e raw = Inr optionsMap
                      \<or> (\<exists>err. jsonUnmarshal e raw = Inl err)
                         \<and> yamlUnmarshal e raw = Inr optionsMap))"
    using ok by (auto simp: defs split: option.splits sum.splits)
  have dry: "map_of m ''dryRun'' = map_option GBool (reqDryRun req)"
    using ok by (auto simp: defs split: option.splits sum.splits)
  have "k \<in> {''uid'', ''subResource'', ''name'', ''namespace'', ''operation'',
                           ''kind'', ''resource'', ''userInfo'', ''options'', ''dryRun''}"
    if "map_of m k \<noteq> None" for k
    using ok that by (auto simp: defs split: option.splits sum.splits if_splits)
  then have keys: "fst ` set m \<subseteq> {''uid'', ''subResource'', ''name'', ''namespace'', ''operation'',
                           ''kind'', ''resource'', ''userInfo'', ''options'', ''dryRun''}"
    using map_of_eq_None_iff[of m] by blast
  show ?thesis
    by (intro conjI; fact)
qed

theorem convertAdmissionRequest_fields_witness:
  "map_of [(''name'', GString ''p''), (''namespace'', GString ''default''),
           (''operation'', GString ''CREATE''),
           (''kind'', GMap [(''group'', GString ''''), (''version'', GString ''v1''),
                            (''kind'', GString ''Pod'')]),
           (''resource'', GMap [(''group'', GString ''''), (''version'', GString ''v1''),
                                (''resource'', GString ''pods'')]),
           (''userInfo'', GMap [(''username'', GString ''admin'')]),
           (''options'', GMap []), (''dryRun'', GBool False)] ''kind''
   = Some (GMap [(''group'', GString (gvkGroup (reqKind exampleRequest))),
                 (''version'', GString (gvkVersion (reqKind exampleRequest))),
                 (''kind'', GString (gvkKind (reqKind exampleRequest)))])
   \<and> gvkKind (reqKind exampleRequest) = ''Pod''
   \<and> gvrResource (reqResource exampleRequest) = ''pods''
   \<and> Username (reqUserInfo exampleRequest) = ''admin''
   \<and> reqOptionsRaw exampleRequest = Some ''{}''
   \<and> gvkKind (reqKind emptyRequest) = '''' \<and> gvkGroup (reqKind emptyRequest) = ''''
   \<and> gvkVersion (reqKind emptyRequest) = ''''
   \<and> gvrResource (reqResource emptyRequest) = '''' \<and> gvrGroup (reqResource emptyRequest) = ''''
   \<and> gvrVersion (reqResource emptyRequest) = ''''
   \<and> Username (reqUserInfo emptyRequest) = '''' \<and> Groups (reqUserInfo emptyRequest) = []
   \<and> UID (reqUserInfo emptyRequest) = '''' \<and> Extra (reqUserInfo emptyRequest) = []
   \<and> reqOptionsRaw emptyRequest = None
   \<and> map_of ([] :: gomap) ''kind'' = None"
  using convertAdmissionRequest_fields[OF exampleRequest_projection]
    convertAdmissionRequest_fields[OF emptyRequest_projection]
  by (simp add: exampleRequest_def emptyRequest_def)

section \<open>A mutating policy with no object\<close>

text \<open>
  C10, as the code has it. The claim says that with neither object nor old object the
  evaluation returns the error "mutating policy requires object or oldObject" unless the
  namespace selector does not match. The request is projected before the objects are
  looked at: with no binding (the selector gate passes) and request options that decode
  neither as JSON nor as YAML, the error is the projection's.
\<close>

theorem EvaluateMutating_projection_error_first:
  "EvaluateMutating (exampleEvaluator exampleTable) exampleMutatingPolicy None
     (Some undecodableRequest) None None None None None None
   = (Inl (ErrWrap ''convert admission request''
             (ErrWrap ''unmarshal options'' (ErrLib ''cannot unmarshal''))), [])
   \<and> matchesNamespaceSelectorV1Beta1 (exampleEvaluator exampleTable) None None = Inr True"
  by (simp add: EvaluateMutating_def matchesNamespaceSelectorV1Beta1_def
      convertAdmissionRequest_def undecodableRequest_def exampleEvaluator_def wrap_def setIf_def)

text \<open>
  C10, amended. With neither object nor old object, a mutating evaluation hands no
  expression to CEL and returns: the result that only says allowed when the namespace
  selector does not match; the selector's error when the selector does not parse; the
  projection's error when the selector matches and the request is not projected; and the
  error "mutating policy requires object or oldObject" when the selector matches and the
  request is projected. So it returns an error, never a result, unless the selector does
  not match.
\<close>

theorem EvaluateMutating_requires_object:
  assumes none: "object = None" "oldObject = None"
    and result: "result = EvaluateMutating e policy binding request object oldObject params
                            namespaceObj authorizer userInfo"
  shows "(matchesNamespaceSelectorV1Beta1 e binding namespaceObj = Inr False \<longrightarrow>
            result = (Inr \<lparr>Allowed = True, Message = '''', Warnings = [], PatchedObject = None,
                           AuditAnnotations = []\<rparr>, []))
       \<and> (\<forall>err. matchesNamespaceSelectorV1Beta1 e binding namespaceObj = Inl err \<longrightarrow>
            result = (Inl (wrap ''evaluate namespace selector'' err), []))
       \<and> (\<forall>err. matchesNamespaceSelectorV1Beta1 e binding namespaceObj = Inr True
                 \<and> convertAdmissionRequest e request = Inl err \<longrightarrow>
            result = (Inl (wrap ''convert admission request'' err), []))
       \<and> (\<forall>requestMap. matchesNamespaceSelectorV1Beta1 e binding namespaceObj = Inr True
                 \<and> convertAdmissionRequest e request = Inr requestMap \<longrightarrow>
            result = (Inl (ErrNew ''mutating policy requires object or oldObject''), []))
       \<and> (matchesNamespaceSelectorV1Beta1 e binding namespaceObj \<noteq> Inr False \<longrightarrow>
            (\<exists>err. fst result = Inl err))"
  unfolding result none
  by (auto simp: EvaluateMutating_def getPrimaryObject_def allowedResult_def
      errMutatingRequiresObject_def split: sum.splits)

theorem EvaluateMutating_requires_object_witness:
  "EvaluateMutating (exampleEvaluator exampleTable) exampleMutatingPolicy
     (Some \<lparr>mbMatchResources = Some \<lparr>NamespaceSelector = Some [(''env'', ''prod'')]\<rparr>\<rparr>)
     None None None None (Some examplePod) None None
   = (Inr \<lparr>Allowed = True, Message = '''', Warnings = [], PatchedObject = None,
           AuditAnnotations = []\<rparr>, [])
   \<and> EvaluateMutating (exampleEvaluator exampleTable) exampleMutatingPolicy None
     None None None None None None None
   = (Inl (ErrNew ''mutating policy requires object or oldObject''), [])
   \<and> EvaluateMutating (exampleEvaluator exampleTable) exampleMutatingPolicy None
     (Some undecodableRequest) None None None None None None
   = (Inl (ErrWrap ''convert admission request''
             (ErrWrap ''unmarshal options'' (ErrLib ''cannot unmarshal''))), [])
   \<and> EvaluateMutating
      ((exampleEvaluator exampleTable)\<lparr>LabelSelectorAsSelector := \<lambda>ls. Inl ''invalid operator''\<rparr>)
      exampleMutatingPolicy
      (Some \<lparr>mbMatchResources = Some \<lparr>NamespaceSelector = Some [(''env'', ''prod'')]\<rparr>\<rparr>)
      None None None None (Some examplePod) None None
   = (Inl (ErrWrap ''evaluate namespace selector''
             (ErrWrap ''parse namespace selector'' (ErrLib ''invalid operator''))), [])"
  using EvaluateMutating_requires_object[where
        e = "(exampleEvaluator exampleTable)\<lparr>LabelSelectorAsSelector := \<lambda>ls. Inl ''invalid operator''\<rparr>"
      and policy = exampleMutatingPolicy and object = None and oldObject = None
      and binding = "Some \<lparr>mbMatchResources = Some \<lparr>NamespaceSelector = Some [(''env'', ''prod'')]\<rparr>\<rparr>"
      and request = None and params = None and namespaceObj = "Some examplePod"
      and authorizer = None and userInfo = None, OF refl refl refl]
    EvaluateMutating_requires_object[where e = "exampleEvaluator exampleTable"
      and policy = exampleMutatingPolicy and object = None and oldObject = None
      and binding = "Some \<lparr>mbMatchResources = Some \<lparr>NamespaceSelector = Some [(''env'', ''prod'')]\<rparr>\<rparr>"
      and request = None and params = None and namespaceObj = "Some examplePod"
      and authorizer = None and userInfo = None, OF refl refl refl]
    EvaluateMutating_requires_object[where e = "exampleEvaluator exampleTable"
      and policy = exampleMutatingPolicy and object = None and oldObject = None
      and binding = None and request = None and params = None and namespaceObj = None
      and authorizer = None and userInfo = None, OF refl refl refl]
    EvaluateMutating_requires_object[where e = "exampleEvaluator exampleTable"
      and policy = exampleMutatingPolicy and object = None and oldObject = None
      and binding = None and request = "Some undecodableRequest" and params = None
      and namespaceObj = None and authorizer = None and userInfo = None, OF refl refl refl]
  by (simp add: matchesNamespaceSelectorV1Beta1_def convertAdmissionRequest_def
      undecodableRequest_def exampleEvaluator_def exampleGetLabels_def examplePod_def wrap_def
      setIf_def)

section \<open>ApplyConfiguration: the merge\<close>

lemma DeepCopyJSONValue_same: "DeepCopyJSONValue v = Inr v' \<Longrightarrow> v' = v"
  and DeepCopyJSONSlice_same: "DeepCopyJSONSlice s = Inr s' \<Longrightarrow> s' = s"
  and DeepCopyJSONMap_same: "DeepCopyJSONMap m = Inr m' \<Longrightarrow> m' = m"
  by (induction v and s and m arbitrary: v' and s' and m'
      rule: DeepCopyJSONValue_DeepCopyJSONSlice_DeepCopyJSONMap.induct)
     (auto split: sum.splits)

lemma DeepCopy_same: "DeepCopy object = Inr copy \<Longrightarrow> copy = object"
  using DeepCopyJSONMap_same
  by (auto simp: DeepCopy_def split: option.splits sum.splits)

text \<open>
  C3, where the code fails it. On a \<^verbatim>\<open>DELETE\<close> the test case has an old object and no
  object. \<^verbatim>\<open>EvaluateMutating\<close> takes the old object as the primary object and binds it to
  \<^verbatim>\<open>object\<close> for the expressions, but hands the nil \<open>object\<close> to \<^verbatim>\<open>applyMutations\<close>: the
  working object is the deep copy of nil, which is nil, and \<^verbatim>\<open>applyApplyConfigurations\<close>
  reads \<^verbatim>\<open>result.Object\<close> of it. The mutation yields an Object value, the conversion gives
  its configuration, and the evaluation panics where the claim has the configuration
  merged into the working object; the panic unwinds through \<^verbatim>\<open>EvaluateTest\<close>.
\<close>

theorem apply_configuration_on_delete_panics:
  "getPrimaryObject (GetObject exampleDeleteCase) (GetOldObject exampleDeleteCase)
     = Some examplePod
   \<and> evaluateApplyConfigurationMutation (exampleEvaluator [(''Object{}'', exampleConfiguration)])
       exampleApplyMutation Map.empty
     = (Inr (Some [(''metadata'', GMap [(''labels'', GMap [(''env'', GString ''prod'')])]),
                  (''spec'', GMap [(''ports'', GSlice [GInt 8080])]),
                  (''kind'', GMap [(''was'', GString ''scalar'')]),
                  (''status'', GString ''new'')]), [''Object{}''])
   \<and> EvaluateMutating (exampleEvaluator [(''Object{}'', exampleConfiguration)])
       \<lparr>mapMatchConditions = [], mapMutations = [exampleApplyMutation]\<rparr> None
       (GetRequest exampleDeleteCase) (GetObject exampleDeleteCase)
       (GetOldObject exampleDeleteCase) None None None None
     = (Inl (GoPanic ''nil pointer dereference''), [''Object{}''])
   \<and> EvaluateTest (exampleEvaluator [(''Object{}'', exampleConfiguration)]) exampleFmt
       (Some \<lparr>mapMatchConditions = [], mapMutations = [exampleApplyMutation]\<rparr>) None None None
       exampleDeleteCase
     = (Inl (GoPanic ''nil pointer dereference''), [''Object{}''])"
  by (simp add: EvaluateTest_def evaluatePolicy_def EvaluateMutating_def exampleDeleteCase_def
      exampleDeleteRequest_def matchesNamespaceSelectorV1Beta1_def convertAdmissionRequest_def
      setIf_def getPrimaryObject_def evaluateMatchConditionsV1Beta1_def applyMutations_def
      DeepCopy_def evaluateApplyConfigurationMutation_def evaluateExpressionRaw_def
      exampleEvaluator_def exampleApplyMutation_def exampleConfiguration_def
      applyApplyConfigurations_def after_def Let_def)

section \<open>The test oracle: order of the checks\<close>

lemma failed_fields [simp]: "trPassed (failed msg) = False" "trMessage (failed msg) = msg"
  by (simp_all add: failed_def zeroTestResult_def)











section \<open>Fatal evaluator errors\<close>

lemma wrap_isPanic [simp]: "isPanic (wrap c err) = isPanic err"
  by (cases err) (simp_all add: wrap_def)

lemma wrapQ_isPanic [simp]: "isPanic (wrapQ c q err) = isPanic err"
  by (cases err) (simp_all add: wrapQ_def)

lemma fatal_Inl [simp]: "fatal (Inl err, t) = (\<not> isPanic err)"
  by (simp add: fatal_def)

lemma fatal_Inr [simp]: "\<not> fatal (Inr v, t)"
  by (simp add: fatal_def)

lemma fatal_after [simp]: "fatal (after t m) = fatal m"
  by (simp add: fatal_def)

lemma compiles_simps [simp]:
  "compiles e []" "compiles e (t @ u) = (compiles e t \<and> compiles e u)"
  "compiles e (x # t) = ((\<exists>ast. celCompile e x = Inr ast) \<and> compiles e t)"
  by (auto simp: compiles_def)































section \<open>Fatal evaluator errors: the test\<close>




end
